(* ===== verification/Prelude.thy ===== *)
theory Prelude
  imports Complex_Main
begin

text \<open>
  Shared vocabulary of the development. Python code that mutates host state and
  may raise is modelled as a state transformer returning either \<open>Ok value state\<close>
  or \<open>Exc error state\<close>: the state in the exception case is the state at the point
  of the raise, since Python does not roll back the mutations done before it.
  \<open>preserves\<close> states that an invariant holds after every outcome, and
  \<open>map_res\<close> views an outcome through an abstraction of the state.
  The theory also holds \<open>first_index\<close> (Python's \<open>next((i for ...), None)\<close> over a
  list) and the list lemmas the component theories share.
\<close>

named_theorems pyfun_simps "unfolding rules of the state-and-exception monad"

section \<open>Python exceptions and the state-and-exception monad\<close>

datatype py_error =
    TypeError
  | AttributeError
  | ValueError
  | RuntimeError
  | KeyError
  | IndexError
  | ReferenceError

datatype ('a, 's) res = Ok 'a 's | Exc py_error 's

type_synonym ('a, 's) pyfun = "'s \<Rightarrow> ('a, 's) res"

primrec res_state :: "('a, 's) res \<Rightarrow> 's" where
  "res_state (Ok a s) = s"
| "res_state (Exc e s) = s"

definition returnP :: "'a \<Rightarrow> ('a, 's) pyfun" where
  "returnP a = (\<lambda>s. Ok a s)"

definition raiseP :: "py_error \<Rightarrow> ('a, 's) pyfun" where
  "raiseP e = (\<lambda>s. Exc e s)"

definition bindP :: "('a, 's) pyfun \<Rightarrow> ('a \<Rightarrow> ('b, 's) pyfun) \<Rightarrow> ('b, 's) pyfun" where
  "bindP m f = (\<lambda>s. case m s of Ok a s' \<Rightarrow> f a s' | Exc e s' \<Rightarrow> Exc e s')"

text \<open>The state of either outcome seen through a function (an abstraction).\<close>

primrec map_res :: "('s \<Rightarrow> 't) \<Rightarrow> ('a, 's) res \<Rightarrow> ('a, 't) res" where
  "map_res f (Ok a s) = Ok a (f s)"
| "map_res f (Exc e s) = Exc e (f s)"

text \<open>An exception surfacing as another one (the state at the raise kept), as an
  exception inside an operator surfaces from \<open>bpy.ops\<close> as RuntimeError.\<close>

primrec reraise_as :: "py_error \<Rightarrow> ('a, 's) res \<Rightarrow> ('a, 's) res" where
  "reraise_as e' (Ok a s) = Ok a s"
| "reraise_as e' (Exc e s) = Exc e' s"

section \<open>The first index of a list satisfying a predicate\<close>

fun first_index :: "('a \<Rightarrow> bool) \<Rightarrow> 'a list \<Rightarrow> nat option" where
  "first_index P [] = None"
| "first_index P (x # xs) = (if P x then Some 0 else map_option Suc (first_index P xs))"

section \<open>Updating every element that satisfies a predicate\<close>

definition map_where :: "('a \<Rightarrow> bool) \<Rightarrow> ('a \<Rightarrow> 'a) \<Rightarrow> 'a list \<Rightarrow> 'a list" where
  "map_where P f xs = map (\<lambda>x. if P x then f x else x) xs"

section \<open>Invariants kept by every outcome of a computation\<close>

text \<open>\<open>preserves P m\<close>: from a state satisfying \<open>P\<close>, \<open>m\<close> ends in a state satisfying \<open>P\<close>,
  whether it returns or raises.\<close>

definition preserves :: "('s \<Rightarrow> bool) \<Rightarrow> ('a, 's) pyfun \<Rightarrow> bool" where
  "preserves P m \<longleftrightarrow> (\<forall>s. P s \<longrightarrow> P (res_state (m s)))"

text \<open>\<open>exc_keeps P m\<close>: when \<open>m\<close> raises from a state satisfying \<open>P\<close>, the state at the
  raise satisfies \<open>P\<close>.\<close>

definition exc_keeps :: "('s \<Rightarrow> bool) \<Rightarrow> ('a, 's) pyfun \<Rightarrow> bool" where
  "exc_keeps P m \<longleftrightarrow> (\<forall>s e s'. P s \<longrightarrow> m s = Exc e s' \<longrightarrow> P s')"

section \<open>Monad laws\<close>

lemma bindP_apply [pyfun_simps]:
  "bindP m f s = (case m s of Ok a s' \<Rightarrow> f a s' | Exc e s' \<Rightarrow> Exc e s')"
  by (simp add: bindP_def)

lemma returnP_apply [simp, pyfun_simps]: "returnP a s = Ok a s"
  by (simp add: returnP_def)

lemma raiseP_apply [simp, pyfun_simps]: "raiseP e s = Exc e s"
  by (simp add: raiseP_def)

lemma bindP_Ok [simp]: "m s = Ok a s' \<Longrightarrow> bindP m f s = f a s'"
  by (simp add: bindP_def)

lemma bindP_Exc [simp]: "m s = Exc e s' \<Longrightarrow> bindP m f s = Exc e s'"
  by (simp add: bindP_def)

lemma bindP_return_left: "bindP (returnP a) f = f a"
  by (simp add: bindP_def returnP_def)

lemma bindP_return_right: "bindP m returnP = m"
  by (rule ext) (simp add: bindP_def split: res.split)

lemma bindP_assoc: "bindP (bindP m f) g = bindP m (\<lambda>a. bindP (f a) g)"
  by (rule ext) (simp add: bindP_def split: res.split)

lemma res_state_reraise_as [simp]: "res_state (reraise_as e r) = res_state r"
  by (cases r) simp_all

section \<open>Lemmas on \<open>first_index\<close>\<close>

lemma first_index_None_iff: "first_index P xs = None \<longleftrightarrow> \<not> list_ex P xs"
  by (induction xs) auto

lemma first_index_SomeD:
  "first_index P xs = Some i \<Longrightarrow> i < length xs \<and> P (xs ! i) \<and> (\<forall>j<i. \<not> P (xs ! j))"
proof (induction xs arbitrary: i)
  case Nil
  then show ?case by simp
next
  case (Cons x xs)
  show ?case
  proof (cases "P x")
    case True
    with Cons.prems show ?thesis by simp
  next
    case False
    with Cons.prems obtain k where k: "first_index P xs = Some k" and i: "i = Suc k"
      by auto
    from Cons.IH [OF k] False i show ?thesis
      by (auto simp: less_Suc_eq_0_disj)
  qed
qed

lemma first_index_append_notex:
  "\<not> list_ex P xs \<Longrightarrow> first_index P (xs @ ys) = map_option ((+) (length xs)) (first_index P ys)"
  by (cases "first_index P ys"; induction xs) auto

lemma first_index_append_ex:
  "list_ex P xs \<Longrightarrow> first_index P (xs @ ys) = first_index P xs"
  by (induction xs) auto

lemma first_index_list_update:
  "P v = P (xs ! i) \<Longrightarrow> first_index P (xs[i := v]) = first_index P xs"
proof (induction xs arbitrary: i)
  case Nil
  then show ?case by simp
next
  case (Cons x xs)
  then show ?case by (cases i) auto
qed

lemma first_index_map: "first_index P (map f xs) = first_index (P \<circ> f) xs"
  by (induction xs) auto

section \<open>Lemmas on \<open>map_where\<close> and \<open>find\<close>\<close>

lemma length_map_where [simp]: "length (map_where P f xs) = length xs"
  by (simp add: map_where_def)

lemma map_where_map_where:
  "(\<And>x. P (f x) = P x) \<Longrightarrow> map_where P g (map_where P f xs) = map_where P (g \<circ> f) xs"
  by (induction xs) (auto simp: map_where_def)

lemma map_where_ident: "\<not> list_ex P xs \<Longrightarrow> map_where P f xs = xs"
  by (induction xs) (auto simp: map_where_def)

lemma map_where_append:
  "map_where P f (xs @ ys) = map_where P f xs @ map_where P f ys"
  by (simp add: map_where_def)

lemma find_map_where:
  "(\<And>x. P (f x) = P x) \<Longrightarrow> find P (map_where P f xs) = map_option f (find P xs)"
  by (induction xs) (auto simp: map_where_def)

lemma filter_map_where:
  "(\<And>x. P (f x) = P x) \<Longrightarrow> filter (\<lambda>x. \<not> P x) (map_where P f xs) = filter (\<lambda>x. \<not> P x) xs"
  by (induction xs) (auto simp: map_where_def)

lemma list_ex_map_where:
  "(\<And>x. P (f x) = P x) \<Longrightarrow> list_ex Q (map_where P f xs) = list_ex (\<lambda>x. if P x then Q (f x) else Q x) xs"
  by (induction xs) (auto simp: map_where_def)

lemma list_ex_map_where_inv:
  "(\<And>x. g (f x) = g x) \<Longrightarrow> list_ex (\<lambda>x. Q (g x)) (map_where P f xs) = list_ex (\<lambda>x. Q (g x)) xs"
  by (induction xs) (auto simp: map_where_def)

lemma map_map_where_inv:
  "(\<And>x. g (f x) = g x) \<Longrightarrow> map g (map_where P f xs) = map g xs"
  by (induction xs) (auto simp: map_where_def)

lemma find_append_notex:
  "\<not> list_ex P xs \<Longrightarrow> find P (xs @ ys) = find P ys"
  by (induction xs) auto

lemma find_append_ex:
  "list_ex P xs \<Longrightarrow> find P (xs @ ys) = find P xs"
  by (induction xs) auto

lemma find_list_ex: "find P xs \<noteq> None \<longleftrightarrow> list_ex P xs"
  by (induction xs) auto


lemma list_ex_filter: "list_ex P xs \<longleftrightarrow> filter P xs \<noteq> []"
  by (induction xs) simp_all

lemma two_in_set_length: "x \<in> set xs \<Longrightarrow> y \<in> set xs \<Longrightarrow> x \<noteq> y \<Longrightarrow> 1 < length xs"
  by (cases xs; cases "tl xs") auto

lemma preservesD: "preserves P m \<Longrightarrow> P s \<Longrightarrow> P (res_state (m s))"
  by (simp add: preserves_def)

lemma preserves_returnP [intro]: "preserves P (returnP a)"
  by (simp add: preserves_def)

lemma preserves_raiseP [intro]: "preserves P (raiseP e)"
  by (simp add: preserves_def)

lemma preserves_bindP [intro]:
  assumes "preserves P m" and "\<And>a. preserves P (f a)"
  shows "preserves P (bindP m f)"
  unfolding preserves_def
proof (intro allI impI)
  fix s assume "P s"
  show "P (res_state (bindP m f s))"
  proof (cases "m s")
    case (Ok a s')
    with assms(1) \<open>P s\<close> have "P s'" by (metis preservesD res_state.simps(1))
    with Ok assms(2) show ?thesis by (simp add: preservesD)
  next
    case (Exc e s')
    with assms(1) \<open>P s\<close> show ?thesis by (metis preservesD res_state.simps(2) bindP_Exc)
  qed
qed

lemma length_le_1_same_key:
  "distinct (map f xs) \<Longrightarrow> \<forall>x\<in>set xs. f x = c \<Longrightarrow> length xs \<le> 1"
  by (induction xs) (auto simp: image_iff)


lemma exc_keeps_preserves [intro]: "preserves P m \<Longrightarrow> exc_keeps P m"
  by (auto simp: exc_keeps_def preserves_def)

lemma exc_keeps_returnP [intro]: "exc_keeps P (returnP a)"
  by (simp add: exc_keeps_def)

lemma exc_keeps_bindP [intro]:
  assumes "preserves P m" and "\<And>a. exc_keeps P (f a)"
  shows "exc_keeps P (bindP m f)"
  unfolding exc_keeps_def
proof (intro allI impI)
  fix s e s' assume P: "P s" and r: "bindP m f s = Exc e s'"
  show "P s'"
  proof (cases "m s")
    case (Ok a t)
    with assms(1) P have "P t" by (metis preservesD res_state.simps(1))
    with Ok r assms(2) show ?thesis by (auto simp: exc_keeps_def)
  next
    case (Exc e' t)
    with assms(1) P r show ?thesis by (metis preservesD res_state.simps(2) bindP_Exc res.inject(2))
  qed
qed

lemma exc_keeps_unchanged:
  "(\<And>s e s'. m s = Exc e s' \<Longrightarrow> s' = s) \<Longrightarrow> exc_keeps P m"
  by (auto simp: exc_keeps_def)

lemma exc_keeps_bindP_returnP [intro]:
  "exc_keeps P m \<Longrightarrow> exc_keeps P (bindP m (\<lambda>x. returnP (g x)))"
  by (auto simp: exc_keeps_def bindP_def split: res.splits)

lemma map_res_reraise_as: "map_res f (reraise_as e r) = reraise_as e (map_res f r)"
  by (cases r) simp_all

end
