(* ===== verification/Compositor.thy ===== *)
theory Compositor
  imports Prelude
begin

text \<open>
  The part of Blender's compositor that the add-on drives (host code, not in the
  repository): a node tree is a list of nodes and a list of links; \<open>nodes.new\<close>
  appends a node with the type's defaults and returns its index (the Python node
  object), \<open>nodes.clear\<close> removes all nodes and with them all links,
  \<open>links.new(a, b)\<close> orders the two sockets by direction (an input socket may be
  given first, as the add-on does), drops the links already entering the input
  socket (an input takes one link) and appends the new link. Attribute
  assignments on nodes check that the node has the attribute.

  The compositor's result at a node output is computed by \<open>eval_output\<close>, a
  fuel-bounded interpreter: an Image node yields the pixels of its image, a
  Denoise node applies the denoiser (an arbitrary function, standing for
  Open Image Denoise) to what its first input receives. The fuel is needed because
  a node tree may contain a cycle; acyclic trees are evaluated within
  \<open>length (nodes t) + 1\<close> steps.
\<close>

type_synonym pixels = "real list"

datatype node_type =
    CompositorNodeImage
  | CompositorNodeDenoise
  | CompositorNodeViewer
  | CompositorNodeRLayers
  | CompositorNodeComposite

datatype prefilter = NONE | FAST | ACCURATE

type_synonym denoiser = "prefilter \<Rightarrow> bool \<Rightarrow> pixels \<Rightarrow> pixels"

record node =
  nd_type :: node_type
  nd_location :: "int \<times> int"
  nd_image :: "nat option"
  nd_prefilter :: prefilter
  nd_use_hdr :: bool

record link =
  from_node :: nat
  from_socket :: nat
  to_node :: nat
  to_socket :: nat

record ntree =
  nodes :: "node list"
  links :: "link list"

datatype socket = Input nat nat | Output nat nat

section \<open>Sockets of each node type\<close>

fun n_inputs :: "node_type \<Rightarrow> nat" where
  "n_inputs CompositorNodeImage = 0"
| "n_inputs CompositorNodeDenoise = 3"
| "n_inputs CompositorNodeViewer = 2"
| "n_inputs CompositorNodeRLayers = 0"
| "n_inputs CompositorNodeComposite = 2"

fun n_outputs :: "node_type \<Rightarrow> nat" where
  "n_outputs CompositorNodeImage = 2"
| "n_outputs CompositorNodeDenoise = 1"
| "n_outputs CompositorNodeViewer = 0"
| "n_outputs CompositorNodeRLayers = 3"
| "n_outputs CompositorNodeComposite = 0"

fun socket_ok :: "ntree \<Rightarrow> socket \<Rightarrow> bool" where
  "socket_ok t (Input n i) = (n < length (nodes t) \<and> i < n_inputs (nd_type (nodes t ! n)))"
| "socket_ok t (Output n i) = (n < length (nodes t) \<and> i < n_outputs (nd_type (nodes t ! n)))"

section \<open>Node-tree operations\<close>

definition default_node :: "node_type \<Rightarrow> node" where
  "default_node ty = \<lparr>nd_type = ty, nd_location = (0, 0), nd_image = None,
                      nd_prefilter = ACCURATE, nd_use_hdr = True\<rparr>"

definition nodes_new :: "node_type \<Rightarrow> (nat, ntree) pyfun" where
  "nodes_new ty t = Ok (length (nodes t)) (t\<lparr>nodes := nodes t @ [default_node ty]\<rparr>)"

definition nodes_clear :: "(unit, ntree) pyfun" where
  "nodes_clear t = Ok () (t\<lparr>nodes := [], links := []\<rparr>)"

text \<open>Assignment to an attribute of a node: a removed node raises ReferenceError,
  a node type without the attribute raises AttributeError.\<close>

definition node_set :: "(node_type \<Rightarrow> bool) \<Rightarrow> nat \<Rightarrow> (node \<Rightarrow> node) \<Rightarrow> (unit, ntree) pyfun" where
  "node_set has_attr n f t =
     (if n < length (nodes t) then
        (if has_attr (nd_type (nodes t ! n))
         then Ok () (t\<lparr>nodes := (nodes t)[n := f (nodes t ! n)]\<rparr>)
         else Exc AttributeError t)
      else Exc ReferenceError t)"

definition set_location :: "nat \<Rightarrow> int \<times> int \<Rightarrow> (unit, ntree) pyfun" where
  "set_location n loc = node_set (\<lambda>_. True) n (\<lambda>nd. nd\<lparr>nd_location := loc\<rparr>)"

definition set_prefilter :: "nat \<Rightarrow> prefilter \<Rightarrow> (unit, ntree) pyfun" where
  "set_prefilter n p =
     node_set (\<lambda>ty. ty = CompositorNodeDenoise) n (\<lambda>nd. nd\<lparr>nd_prefilter := p\<rparr>)"

definition set_use_hdr :: "nat \<Rightarrow> bool \<Rightarrow> (unit, ntree) pyfun" where
  "set_use_hdr n b =
     node_set (\<lambda>ty. ty = CompositorNodeDenoise) n (\<lambda>nd. nd\<lparr>nd_use_hdr := b\<rparr>)"

definition add_link :: "nat \<Rightarrow> nat \<Rightarrow> nat \<Rightarrow> nat \<Rightarrow> ntree \<Rightarrow> ntree" where
  "add_link fn fs tn ts t =
     t\<lparr>links := filter (\<lambda>l. \<not> (to_node l = tn \<and> to_socket l = ts)) (links t)
                @ [\<lparr>from_node = fn, from_socket = fs, to_node = tn, to_socket = ts\<rparr>]\<rparr>"

definition links_new :: "socket \<Rightarrow> socket \<Rightarrow> (unit, ntree) pyfun" where
  "links_new a b t =
     (if \<not> socket_ok t a \<or> \<not> socket_ok t b then Exc IndexError t
      else (case (a, b) of
              (Input tn ts, Output fn fs) \<Rightarrow> Ok () (add_link fn fs tn ts t)
            | (Output fn fs, Input tn ts) \<Rightarrow> Ok () (add_link fn fs tn ts t)
            | _ \<Rightarrow> Exc RuntimeError t))"

section \<open>Evaluation of a node tree\<close>

definition input_link :: "ntree \<Rightarrow> nat \<Rightarrow> nat \<Rightarrow> link option" where
  "input_link t n s = find (\<lambda>l. to_node l = n \<and> to_socket l = s) (links t)"

fun eval_output :: "denoiser \<Rightarrow> (nat \<Rightarrow> pixels option) \<Rightarrow> ntree \<Rightarrow> nat \<Rightarrow> nat \<Rightarrow> pixels option" where
  "eval_output oidn img t 0 n = None"
| "eval_output oidn img t (Suc fuel) n =
     (if n < length (nodes t) then
        (let nd = nodes t ! n in
         case nd_type nd of
           CompositorNodeImage \<Rightarrow> (case nd_image nd of None \<Rightarrow> None | Some i \<Rightarrow> img i)
         | CompositorNodeDenoise \<Rightarrow>
             (case input_link t n 0 of
                None \<Rightarrow> None
              | Some l \<Rightarrow>
                  if from_socket l = 0
                  then map_option (oidn (nd_prefilter nd) (nd_use_hdr nd))
                         (eval_output oidn img t fuel (from_node l))
                  else None)
         | _ \<Rightarrow> None)
      else None)"

text \<open>What a Viewer node receives on its Image input.\<close>

definition viewer_input :: "denoiser \<Rightarrow> (nat \<Rightarrow> pixels option) \<Rightarrow> ntree \<Rightarrow> nat \<Rightarrow> nat \<Rightarrow> pixels option" where
  "viewer_input oidn img t fuel v =
     (case input_link t v 0 of
        None \<Rightarrow> None
      | Some l \<Rightarrow> if from_socket l = 0 then eval_output oidn img t fuel (from_node l) else None)"

section \<open>Well-formed and ranked trees\<close>

text \<open>A link is well formed when it leaves an existing output socket and enters an
  existing input socket; a tree is well formed when all its links are and no input
  socket has two links. A rank function that grows along every link is a
  topological order: a tree has one exactly when it has no cycle.\<close>

definition link_ok :: "ntree \<Rightarrow> link \<Rightarrow> bool" where
  "link_ok t l \<longleftrightarrow>
     socket_ok t (Output (from_node l) (from_socket l)) \<and> socket_ok t (Input (to_node l) (to_socket l))"

definition tree_wf :: "ntree \<Rightarrow> bool" where
  "tree_wf t \<longleftrightarrow>
     (\<forall>l\<in>set (links t). link_ok t l) \<and> distinct (map (\<lambda>l. (to_node l, to_socket l)) (links t))"

definition ranked :: "ntree \<Rightarrow> (nat \<Rightarrow> nat) \<Rightarrow> bool" where
  "ranked t rk \<longleftrightarrow>
     (\<forall>l\<in>set (links t). rk (from_node l) < rk (to_node l)) \<and>
     (\<forall>n<length (nodes t). rk n < length (nodes t))"

section \<open>Lemmas\<close>

text \<open>The node-tree operations the add-on calls unfold into the monad: they are
  the simplification rules a computation of a setup sequence needs.\<close>

declare nodes_new_def [pyfun_simps] set_location_def [pyfun_simps] node_set_def [pyfun_simps]
  links_new_def [pyfun_simps] add_link_def [pyfun_simps] set_prefilter_def [pyfun_simps]
  set_use_hdr_def [pyfun_simps] default_node_def [pyfun_simps]

lemma eval_output_mono:
  "eval_output oidn img t fuel n = Some p \<Longrightarrow> eval_output oidn img t (fuel + k) n = Some p"
proof (induction fuel arbitrary: n p)
  case 0
  then show ?case by simp
next
  case (Suc fuel)
  then show ?case
    by (auto simp: Let_def split: if_splits option.splits node_type.splits)
qed


lemma nodes_clear_empty: "nodes_clear t = Ok () \<lparr>nodes = [], links = []\<rparr>"
  by (cases t) (simp add: nodes_clear_def)


section \<open>Lemmas on well-formed trees\<close>

lemma socket_ok_append_node:
  "socket_ok t s \<Longrightarrow> socket_ok (t\<lparr>nodes := nodes t @ xs\<rparr>) s"
  by (cases s) (auto simp: nth_append)

lemma socket_ok_update_node:
  "n < length (nodes t) \<Longrightarrow> nd_type v = nd_type (nodes t ! n) \<Longrightarrow>
   socket_ok (t\<lparr>nodes := (nodes t)[n := v]\<rparr>) s = socket_ok t s"
  by (cases s) (auto simp: nth_list_update)

lemma socket_ok_links_update [simp]: "socket_ok (t\<lparr>links := ls\<rparr>) s = socket_ok t s"
  by (cases s) simp_all

lemma link_ok_append_node: "link_ok t l \<Longrightarrow> link_ok (t\<lparr>nodes := nodes t @ xs\<rparr>) l"
  by (simp add: link_ok_def socket_ok_append_node del: socket_ok.simps)

lemma link_ok_update_node:
  "n < length (nodes t) \<Longrightarrow> nd_type v = nd_type (nodes t ! n) \<Longrightarrow>
   link_ok (t\<lparr>nodes := (nodes t)[n := v]\<rparr>) l = link_ok t l"
  by (simp add: link_ok_def socket_ok_update_node del: socket_ok.simps)

lemma link_ok_links_update [simp]: "link_ok (t\<lparr>links := ls\<rparr>) l = link_ok t l"
  by (simp add: link_ok_def)

lemma tree_wf_add_link:
  assumes "tree_wf t" and "socket_ok t (Output fn fs)" and "socket_ok t (Input tn ts)"
  shows "tree_wf (add_link fn fs tn ts t)"
proof -
  have "distinct (map (\<lambda>l. (to_node l, to_socket l))
          (filter (\<lambda>l. \<not> (to_node l = tn \<and> to_socket l = ts)) (links t)))"
    using assms(1) by (simp add: tree_wf_def distinct_map_filter)
  then show ?thesis
    using assms by (auto simp: tree_wf_def add_link_def link_ok_def simp del: socket_ok.simps)
qed

lemma preserves_nodes_new [intro]: "preserves tree_wf (nodes_new ty)"
  by (auto simp: preserves_def tree_wf_def nodes_new_def link_ok_append_node)

lemma preserves_nodes_clear [intro]: "preserves tree_wf nodes_clear"
  by (simp add: preserves_def tree_wf_def nodes_clear_def)

lemma preserves_node_set [intro]:
  "(\<And>nd. nd_type (f nd) = nd_type nd) \<Longrightarrow> preserves tree_wf (node_set P n f)"
  by (auto simp: preserves_def tree_wf_def node_set_def link_ok_update_node)

lemma preserves_links_new [intro]: "preserves tree_wf (links_new a b)"
  unfolding preserves_def links_new_def
  by (auto intro: tree_wf_add_link split: socket.splits)

lemmas preserves_tree_ops = preserves_nodes_new preserves_nodes_clear preserves_node_set
  preserves_links_new

text \<open>The evaluation at a node does not depend on the fuel once the fuel exceeds the
  node's rank: each step follows a link backwards, to a node of smaller rank.\<close>

lemma input_link_in_links:
  "input_link t n s = Some l \<Longrightarrow> l \<in> set (links t) \<and> to_node l = n \<and> to_socket l = s"
  by (auto simp: input_link_def find_Some_iff in_set_conv_nth)

lemma eval_output_fuel:
  assumes "ranked t rk" and "rk n < f" and "rk n < g"
  shows "eval_output oidn img t f n = eval_output oidn img t g n"
  using assms(2,3)
proof (induction f arbitrary: n g)
  case 0
  then show ?case by simp
next
  case (Suc f)
  then obtain g' where g: "g = Suc g'" by (cases g) auto
  have IH: "eval_output oidn img t f (from_node l) = eval_output oidn img t g' (from_node l)"
    if "input_link t n 0 = Some l" for l
  proof -
    from that have "rk (from_node l) < rk n"
      using assms(1) by (auto simp: ranked_def dest!: input_link_in_links)
    with Suc.prems g show ?thesis by (intro Suc.IH) auto
  qed
  show ?case
    using IH by (simp add: g Let_def split: node_type.splits option.splits)
qed

lemma eval_output_out_of_range:
  "length (nodes t) \<le> n \<Longrightarrow> eval_output oidn img t f n = None"
  by (cases f) simp_all

lemma input_link_add_link:
  "input_link (add_link fn fs tn ts t) tn ts =
     Some \<lparr>from_node = fn, from_socket = fs, to_node = tn, to_socket = ts\<rparr>"
proof -
  have "\<not> list_ex (\<lambda>l. to_node l = tn \<and> to_socket l = ts)
          (filter (\<lambda>l. \<not> (to_node l = tn \<and> to_socket l = ts)) (links t))"
    by (simp add: list_ex_iff)
  then show ?thesis
    by (simp add: input_link_def add_link_def find_append_notex)
qed

end
