(* ===== verification/Host_Data.thy ===== *)
theory Host_Data
  imports Compositor
begin

text \<open>
  The part of Blender's data model (\<open>bpy.data\<close>, \<open>bpy.context\<close>) that the add-on
  reads and writes; host code, modelled from Blender's documented behaviour.
  \<^item> \<open>bdata\<close> holds the scenes (identified by their unique name, as
    \<open>bpy.data.scenes[name]\<close> does) and the images (identified by their position:
    images are only ever appended here, so a position is a stable Python reference).
  \<^item> A scene owns an optional compositor node tree; setting \<open>use_nodes\<close> creates
    the default tree (Render Layers linked to Composite) when there is none.
  \<^item> \<open>on_tree\<close> runs a node-tree operation on the tree of a named scene, writing
    back the tree also when the operation raises.
  \<^item> \<open>render_render\<close> is \<open>bpy.ops.render.render(scene=name)\<close>: it evaluates what the
    first Viewer node of the scene's tree receives and stores it in the viewer image,
    the first image of type COMPOSITING, created ("Viewer Node") when there is none.
  \<^item> \<open>set_image_pixels\<close> is the assignment \<open>image.pixels = values\<close>, which raises
    ValueError when the number of values is not the image's.
  \<^item> \<open>bdata_wf\<close> and \<open>trees_wf\<close> are the invariants of the data, and every
    operation here keeps both, whether it returns or raises.
\<close>

datatype img_type = IMAGE | MULTILAYER | UV_TEST | RENDER_RESULT | COMPOSITING

record image =
  img_name :: string
  img_type :: img_type
  pixels :: pixels

record scene =
  sc_name :: string
  use_nodes :: bool
  node_tree :: "ntree option"

record bdata =
  scenes :: "scene list"
  images :: "image list"

record bpy_context =
  edit_image :: "nat option"

text \<open>The Python values the add-on stores in \<open>source_image\<close>.\<close>

datatype pyval = PyStr string | PyImage nat | PyNone

section \<open>Scenes\<close>

definition scene_in :: "string \<Rightarrow> bdata \<Rightarrow> bool" where
  "scene_in nm st = list_ex (\<lambda>s. sc_name s = nm) (scenes st)"

definition scenes_get :: "string \<Rightarrow> (string, bdata) pyfun" where
  "scenes_get nm st = (if scene_in nm st then Ok nm st else Exc KeyError st)"

definition new_scene :: "string \<Rightarrow> scene" where
  "new_scene nm = \<lparr>sc_name = nm, use_nodes = False, node_tree = None\<rparr>"

definition scenes_new :: "string \<Rightarrow> (string, bdata) pyfun" where
  "scenes_new nm st = Ok nm (st\<lparr>scenes := scenes st @ [new_scene nm]\<rparr>)"

definition default_comp_tree :: ntree where
  "default_comp_tree =
     \<lparr>nodes = [default_node CompositorNodeRLayers, default_node CompositorNodeComposite],
      links = [\<lparr>from_node = 0, from_socket = 0, to_node = 1, to_socket = 0\<rparr>]\<rparr>"

definition upd_scene :: "string \<Rightarrow> (scene \<Rightarrow> scene) \<Rightarrow> bdata \<Rightarrow> bdata" where
  "upd_scene nm f st = st\<lparr>scenes := map_where (\<lambda>s. sc_name s = nm) f (scenes st)\<rparr>"

definition set_use_nodes :: "string \<Rightarrow> (unit, bdata) pyfun" where
  "set_use_nodes nm st =
     (if scene_in nm st then
        Ok () (upd_scene nm (\<lambda>s. s\<lparr>use_nodes := True,
                  node_tree := Some (case node_tree s of None \<Rightarrow> default_comp_tree | Some t \<Rightarrow> t)\<rparr>) st)
      else Exc ReferenceError st)"

definition put_tree :: "string \<Rightarrow> ntree \<Rightarrow> bdata \<Rightarrow> bdata" where
  "put_tree nm t = upd_scene nm (\<lambda>s. s\<lparr>node_tree := Some t\<rparr>)"

definition on_tree :: "string \<Rightarrow> ('a, ntree) pyfun \<Rightarrow> ('a, bdata) pyfun" where
  "on_tree nm f st =
     (case find (\<lambda>s. sc_name s = nm) (scenes st) of
        None \<Rightarrow> Exc ReferenceError st
      | Some sc \<Rightarrow>
          (case node_tree sc of
             None \<Rightarrow> Exc AttributeError st
           | Some t \<Rightarrow>
               (case f t of
                  Ok a t' \<Rightarrow> Ok a (put_tree nm t' st)
                | Exc e t' \<Rightarrow> Exc e (put_tree nm t' st))))"

definition scenes_remove :: "string \<Rightarrow> (unit, bdata) pyfun" where
  "scenes_remove nm st =
     (if \<not> scene_in nm st then Exc ReferenceError st
      else if length (scenes st) \<le> 1 then Exc RuntimeError st
      else Ok () (st\<lparr>scenes := filter (\<lambda>s. sc_name s \<noteq> nm) (scenes st)\<rparr>))"

section \<open>Images and rendering\<close>

definition image_px :: "bdata \<Rightarrow> nat \<Rightarrow> pixels option" where
  "image_px st i = (if i < length (images st) then Some (pixels (images st ! i)) else None)"

definition is_compositing :: "image \<Rightarrow> bool" where
  "is_compositing im \<longleftrightarrow> img_type im = COMPOSITING"

definition viewer_image_new :: image where
  "viewer_image_new = \<lparr>img_name = ''Viewer Node'', img_type = COMPOSITING, pixels = []\<rparr>"

definition ensure_viewer :: "image list \<Rightarrow> nat \<times> image list" where
  "ensure_viewer imgs =
     (case first_index is_compositing imgs of
        Some v \<Rightarrow> (v, imgs)
      | None \<Rightarrow> (length imgs, imgs @ [viewer_image_new]))"

definition store_pixels :: "nat \<Rightarrow> pixels \<Rightarrow> image list \<Rightarrow> image list" where
  "store_pixels i p imgs = imgs[i := (imgs ! i)\<lparr>pixels := p\<rparr>]"

definition render_render :: "denoiser \<Rightarrow> string \<Rightarrow> (unit, bdata) pyfun" where
  "render_render oidn nm st =
     (case find (\<lambda>s. sc_name s = nm) (scenes st) of
        None \<Rightarrow> Exc RuntimeError st
      | Some sc \<Rightarrow>
          (case node_tree sc of
             None \<Rightarrow> Ok () st
           | Some t \<Rightarrow>
               if \<not> use_nodes sc then Ok () st
               else (case first_index (\<lambda>nd. nd_type nd = CompositorNodeViewer) (nodes t) of
                       None \<Rightarrow> Ok () st
                     | Some v \<Rightarrow>
                         (let (vi, imgs) = ensure_viewer (images st)
                          in (case viewer_input oidn (image_px st) t (length (nodes t) + 1) v of
                                None \<Rightarrow> Ok () (st\<lparr>images := imgs\<rparr>)
                              | Some p \<Rightarrow> Ok () (st\<lparr>images := store_pixels vi p imgs\<rparr>))))))"

definition set_image_pixels :: "nat \<Rightarrow> pixels \<Rightarrow> (unit, bdata) pyfun" where
  "set_image_pixels i p st =
     (if i < length (images st) then
        (if length p = length (pixels (images st ! i))
         then Ok () (st\<lparr>images := store_pixels i p (images st)\<rparr>)
         else Exc ValueError st)
      else Exc ReferenceError st)"

section \<open>Well-formed data: at least one scene, scene names unique\<close>

definition bdata_wf :: "bdata \<Rightarrow> bool" where
  "bdata_wf st \<longleftrightarrow> scenes st \<noteq> [] \<and> distinct (map sc_name (scenes st))"

text \<open>Every compositor node tree of the file is well formed.\<close>

definition trees_wf :: "bdata \<Rightarrow> bool" where
  "trees_wf st \<longleftrightarrow> (\<forall>sc\<in>set (scenes st). pred_option tree_wf (node_tree sc))"

section \<open>Lemmas\<close>

lemma sc_name_upd_inv:
  "(\<And>s. sc_name (f s) = sc_name s) \<Longrightarrow> map sc_name (scenes (upd_scene nm f st)) = map sc_name (scenes st)"
  by (simp add: upd_scene_def map_map_where_inv)

lemma find_upd_scene [simp]:
  "(\<And>s. sc_name (f s) = sc_name s) \<Longrightarrow>
   find (\<lambda>s. sc_name s = nm) (scenes (upd_scene nm f st)) = map_option f (find (\<lambda>s. sc_name s = nm) (scenes st))"
  by (simp add: upd_scene_def find_map_where)

lemma scene_in_upd_scene [simp]:
  "(\<And>s. sc_name (f s) = sc_name s) \<Longrightarrow> scene_in m (upd_scene nm f st) = scene_in m st"
  using list_ex_map_where_inv [of sc_name f "\<lambda>x. x = m"]
  by (simp add: scene_in_def upd_scene_def)

lemma images_upd_scene [simp]: "images (upd_scene nm f st) = images st"
  by (simp add: upd_scene_def)

lemma upd_scene_upd_scene:
  "(\<And>s. sc_name (f s) = sc_name s) \<Longrightarrow> upd_scene nm g (upd_scene nm f st) = upd_scene nm (g \<circ> f) st"
  by (simp add: upd_scene_def map_where_map_where)

lemma scene_in_find: "scene_in nm st \<longleftrightarrow> find (\<lambda>s. sc_name s = nm) (scenes st) \<noteq> None"
  by (simp add: scene_in_def find_list_ex [symmetric] del: not_None_eq)

lemma filter_upd_scene [simp]:
  "(\<And>s. sc_name (f s) = sc_name s) \<Longrightarrow>
   filter (\<lambda>s. sc_name s \<noteq> nm) (scenes (upd_scene nm f st)) = filter (\<lambda>s. sc_name s \<noteq> nm) (scenes st)"
  using filter_map_where [of "\<lambda>s. sc_name s = nm" f "scenes st"]
  by (simp add: upd_scene_def)

lemma length_ensure_viewer:
  "length (snd (ensure_viewer imgs)) = length imgs \<or> length (snd (ensure_viewer imgs)) = Suc (length imgs)"
  by (simp add: ensure_viewer_def split: option.split)

lemma ensure_viewer_index:
  "fst (ensure_viewer imgs) < length (snd (ensure_viewer imgs))"
  by (auto simp: ensure_viewer_def dest: first_index_SomeD split: option.split)

lemma ensure_viewer_prefix:
  "take (length imgs) (snd (ensure_viewer imgs)) = imgs"
  by (simp add: ensure_viewer_def split: option.split)

lemma ensure_viewer_is_compositing:
  "is_compositing (snd (ensure_viewer imgs) ! fst (ensure_viewer imgs))"
  by (auto simp: ensure_viewer_def viewer_image_new_def is_compositing_def
           dest: first_index_SomeD split: option.split)


lemma bdata_full_update [simp]:
  "st\<lparr>scenes := a, images := b\<rparr> = \<lparr>scenes = a, images = b\<rparr>"
  "st\<lparr>images := b, scenes := a\<rparr> = \<lparr>scenes = a, images = b\<rparr>"
  by (cases st; simp)+

lemma scene_in_images_update [simp]: "scene_in nm (st\<lparr>images := b\<rparr>) = scene_in nm st"
  by (simp add: scene_in_def)

lemma length_scenes_upd_scene [simp]: "length (scenes (upd_scene nm f st)) = length (scenes st)"
  by (simp add: upd_scene_def)

lemma image_px_upd_scene [simp]: "image_px (upd_scene nm f st) = image_px st"
  by (rule ext) (simp add: image_px_def)

lemma find_put_tree [simp]:
  "find (\<lambda>s. sc_name s = nm) (scenes (put_tree nm t st)) =
   map_option (\<lambda>s. s\<lparr>node_tree := Some t\<rparr>) (find (\<lambda>s. sc_name s = nm) (scenes st))"
  by (simp add: put_tree_def)

lemma put_tree_put_tree: "put_tree nm t2 (put_tree nm t1 st) = put_tree nm t2 st"
  by (simp add: put_tree_def upd_scene_upd_scene comp_def)

text \<open>Consecutive operations on the node tree of one scene are one operation on
  that tree: the law that lets the add-on's statement-by-statement setup be
  computed on the tree alone.\<close>

lemma on_tree_bind_last:
  "bindP (on_tree nm f) (\<lambda>a. on_tree nm (g a)) = on_tree nm (bindP f g)"
proof (rule ext)
  fix st
  show "bindP (on_tree nm f) (\<lambda>a. on_tree nm (g a)) st = on_tree nm (bindP f g) st"
    by (auto simp: on_tree_def bindP_def put_tree_put_tree split: option.split res.split)
qed

lemma first_index_ensure_viewer:
  "first_index is_compositing (snd (ensure_viewer imgs)) = Some (fst (ensure_viewer imgs))"
proof (cases "first_index is_compositing imgs")
  case None
  then have "\<not> list_ex is_compositing imgs" by (simp add: first_index_None_iff)
  with None show ?thesis
    by (simp add: ensure_viewer_def first_index_append_notex viewer_image_new_def is_compositing_def)
qed (simp add: ensure_viewer_def)

lemma is_compositing_store [simp]: "is_compositing ((imgs ! i)\<lparr>pixels := p\<rparr>) = is_compositing (imgs ! i)"
  by (simp add: is_compositing_def)

lemma first_index_store_pixels [simp]:
  "first_index is_compositing (store_pixels i p imgs) = first_index is_compositing imgs"
  by (simp add: store_pixels_def first_index_list_update)

lemma length_store_pixels [simp]: "length (store_pixels i p imgs) = length imgs"
  by (simp add: store_pixels_def)

lemma store_pixels_nth:
  "j < length imgs \<Longrightarrow> store_pixels i p imgs ! j = (if i = j then (imgs ! j)\<lparr>pixels := p\<rparr> else imgs ! j)"
  by (simp add: store_pixels_def nth_list_update)

lemma pixels_store_pixels:
  "j < length imgs \<Longrightarrow> pixels (store_pixels i p imgs ! j) = (if i = j then p else pixels (imgs ! j))"
  by (simp add: store_pixels_nth)

lemma ensure_viewer_nth:
  "j < length imgs \<Longrightarrow> snd (ensure_viewer imgs) ! j = imgs ! j"
  by (simp add: ensure_viewer_def nth_append split: option.split)

lemma length_ensure_viewer_ge: "length imgs \<le> length (snd (ensure_viewer imgs))"
  by (simp add: ensure_viewer_def split: option.split)

section \<open>Every host operation keeps the well-formedness of the data\<close>

lemma bdata_wf_images_update [simp]: "bdata_wf (st\<lparr>images := x\<rparr>) = bdata_wf st"
  by (simp add: bdata_wf_def)

lemma bdata_wf_upd_scene:
  "(\<And>s. sc_name (f s) = sc_name s) \<Longrightarrow> bdata_wf (upd_scene nm f st) = bdata_wf st"
proof -
  assume h: "\<And>s. sc_name (f s) = sc_name s"
  have "map sc_name (scenes (upd_scene nm f st)) = map sc_name (scenes st)"
    using h by (rule sc_name_upd_inv)
  moreover have "(scenes (upd_scene nm f st) = []) = (scenes st = [])"
    by (metis length_0_conv length_scenes_upd_scene)
  ultimately show ?thesis by (simp add: bdata_wf_def)
qed

lemma preserves_set_use_nodes [intro]: "preserves bdata_wf (set_use_nodes nm)"
  by (simp add: preserves_def set_use_nodes_def bdata_wf_upd_scene)

lemma preserves_on_tree [intro]: "preserves bdata_wf (on_tree nm f)"
  by (auto simp: preserves_def on_tree_def put_tree_def bdata_wf_upd_scene
           split: option.split res.split)

lemma preserves_scenes_get [intro]: "preserves bdata_wf (scenes_get nm)"
  by (simp add: preserves_def scenes_get_def)

lemma preserves_render_render [intro]: "preserves bdata_wf (render_render oidn nm)"
  by (auto simp: preserves_def render_render_def split: option.split prod.split)

lemma preserves_set_image_pixels [intro]: "preserves bdata_wf (set_image_pixels i p)"
  by (simp add: preserves_def set_image_pixels_def)

lemma preserves_scenes_remove [intro]: "preserves bdata_wf (scenes_remove nm)"
  unfolding preserves_def
proof (intro allI impI)
  fix st assume wf: "bdata_wf st"
  show "bdata_wf (res_state (scenes_remove nm st))"
  proof (cases "scene_in nm st \<and> 1 < length (scenes st)")
    case True
    let ?rest = "filter (\<lambda>s. sc_name s \<noteq> nm) (scenes st)"
    have "?rest \<noteq> []"
    proof
      assume "?rest = []"
      then have "\<forall>x\<in>set (scenes st). sc_name x = nm" by (simp add: filter_empty_conv)
      with wf have "length (scenes st) \<le> 1"
        using length_le_1_same_key [of sc_name "scenes st" nm] by (simp add: bdata_wf_def)
      with True show False by simp
    qed
    moreover have "distinct (map sc_name ?rest)"
      using wf by (simp add: bdata_wf_def distinct_map_filter)
    ultimately show ?thesis
      using True by (simp add: scenes_remove_def bdata_wf_def)
  next
    case False
    with wf show ?thesis by (auto simp: scenes_remove_def)
  qed
qed


section \<open>Every host operation keeps the node trees well formed\<close>

lemma tree_wf_default_comp_tree: "tree_wf default_comp_tree"
  by (simp add: tree_wf_def link_ok_def default_comp_tree_def default_node_def)

lemma trees_wf_images_update [simp]: "trees_wf (st\<lparr>images := x\<rparr>) = trees_wf st"
  by (simp add: trees_wf_def)

lemma trees_wf_upd_scene:
  assumes "trees_wf st" and "\<And>s. pred_option tree_wf (node_tree s) \<Longrightarrow> pred_option tree_wf (node_tree (f s))"
  shows "trees_wf (upd_scene nm f st)"
  using assms by (auto simp: trees_wf_def upd_scene_def map_where_def)

lemma preserves_trees_wf_set_use_nodes [intro]: "preserves trees_wf (set_use_nodes nm)"
  by (auto simp: preserves_def set_use_nodes_def tree_wf_default_comp_tree
           intro!: trees_wf_upd_scene split: option.split)

lemma preserves_trees_wf_on_tree [intro]:
  assumes "preserves tree_wf f"
  shows "preserves trees_wf (on_tree nm f)"
  unfolding preserves_def
proof (intro allI impI)
  fix st assume wf: "trees_wf st"
  show "trees_wf (res_state (on_tree nm f st))"
  proof (cases "find (\<lambda>s. sc_name s = nm) (scenes st)")
    case None
    with wf show ?thesis by (simp add: on_tree_def)
  next
    case (Some sc)
    then have "sc \<in> set (scenes st)" by (auto simp: find_Some_iff)
    with wf have sc: "pred_option tree_wf (node_tree sc)" by (simp add: trees_wf_def)
    show ?thesis
    proof (cases "node_tree sc")
      case None
      with Some wf show ?thesis by (simp add: on_tree_def)
    next
      case (Some t)
      with sc have "tree_wf (res_state (f t))" using assms by (simp add: preservesD)
      with wf Some \<open>find _ _ = Some sc\<close> show ?thesis
        by (auto simp: on_tree_def put_tree_def intro!: trees_wf_upd_scene split: res.split)
    qed
  qed
qed

lemma preserves_trees_wf_scenes_get [intro]: "preserves trees_wf (scenes_get nm)"
  by (simp add: preserves_def scenes_get_def)

lemma preserves_trees_wf_scenes_new [intro]: "preserves trees_wf (scenes_new nm)"
  by (simp add: preserves_def scenes_new_def trees_wf_def new_scene_def)

lemma preserves_trees_wf_render_render [intro]: "preserves trees_wf (render_render oidn nm)"
  by (auto simp: preserves_def render_render_def split: option.split prod.split)

lemma preserves_trees_wf_set_image_pixels [intro]: "preserves trees_wf (set_image_pixels i p)"
  by (simp add: preserves_def set_image_pixels_def)

lemma preserves_trees_wf_scenes_remove [intro]: "preserves trees_wf (scenes_remove nm)"
  by (simp add: preserves_def scenes_remove_def trees_wf_def)


section \<open>The host operations keep the scenes a file has\<close>

lemma preserves_scene_in_set_use_nodes [intro]: "preserves (scene_in m) (set_use_nodes nm)"
  by (simp add: preserves_def set_use_nodes_def)

lemma preserves_scene_in_on_tree [intro]: "preserves (scene_in m) (on_tree nm f)"
  by (auto simp: preserves_def on_tree_def put_tree_def split: option.split res.split)

lemma preserves_scene_in_render_render [intro]: "preserves (scene_in m) (render_render oidn nm)"
  by (auto simp: preserves_def render_render_def scene_in_images_update split: option.split prod.split)

lemma preserves_scene_in_set_image_pixels [intro]: "preserves (scene_in m) (set_image_pixels i p)"
  by (simp add: preserves_def set_image_pixels_def scene_in_images_update)

lemma exc_keeps_scenes_remove [intro]: "exc_keeps P (scenes_remove nm)"
  by (rule exc_keeps_unchanged) (simp add: scenes_remove_def split: if_splits)

end
