(* ===== verification/Operator.thy ===== *)
theory Operator
  imports Host_Data
begin

text \<open>
  The operator class \<open>IMAGE_OT_denoise\<close> of image_denoise_operator.py (lines 52-132):
  its properties (\<open>op_props\<close>), labels, the prefilter enum items, \<open>poll\<close>,
  \<open>invoke\<close> with the properties dialog it opens (\<open>invoke_run\<close>) and \<open>execute\<close>. \<open>execute\<close> is composed of the source's blocks, each a definition:
  getting the source image (\<open>source_of\<close>), creating the scene (\<open>create_scene\<close>),
  setting up the compositor (\<open>setup_compositor\<close>, which runs the node-tree steps
  through \<open>on_tree\<close>), rendering, looking up the viewer image
  (\<open>find_viewer_image\<close>), copying the pixels back (\<open>copy_pixels\<close>) and removing the
  scene. The lemmas compute the result of each block; \<open>denoise_graph\<close> is the
  node tree the setup block builds, stated once so that the later blocks are
  proved against it.
\<close>

section \<open>Module constants and operator properties\<close>

definition SCENE_NAME :: string where
  "SCENE_NAME = ''Image Denoise Scene''"

definition IMAGE_OT_denoise_bl_idname :: string where
  "IMAGE_OT_denoise_bl_idname = ''image.denoise''"

definition IMAGE_OT_denoise_bl_label :: string where
  "IMAGE_OT_denoise_bl_label = ''Denoise''"

definition IMAGE_OT_denoise_bl_description :: string where
  "IMAGE_OT_denoise_bl_description = ''Denoise image with Open Image Denoise''"

record op_props =
  op_image :: string
  op_prefilter :: prefilter
  op_use_hdr :: bool

definition prefilter_items :: "(string \<times> prefilter \<times> string \<times> string) list" where
  "prefilter_items =
     [(''NONE'', NONE, ''None'', ''No prefiltering''),
      (''FAST'', FAST, ''Fast'', ''Denoise image and guiding passes together''),
      (''ACCURATE'', ACCURATE, ''Accurate'', ''Prefilter noisy guiding passes before denoising image'')]"

definition op_defaults :: op_props where
  "op_defaults = \<lparr>op_image = '''', op_prefilter = ACCURATE, op_use_hdr = True\<rparr>"

section \<open>poll and invoke\<close>

definition poll :: "bpy_context \<Rightarrow> bool" where
  "poll ctx \<longleftrightarrow> edit_image ctx \<noteq> None"

datatype op_result = FINISHED | CANCELLED | RUNNING_MODAL

text \<open>\<open>invoke\<close> opens the properties dialog and returns RUNNING_MODAL; the data is
  not touched until the dialog is confirmed, which calls \<open>execute\<close>.\<close>

definition invoke :: "op_props \<Rightarrow> bpy_context \<Rightarrow> (op_result, bdata) pyfun" where
  "invoke self ctx = returnP RUNNING_MODAL"

section \<open>execute, block by block\<close>

definition source_of :: "op_props \<Rightarrow> bpy_context \<Rightarrow> pyval" where
  "source_of self ctx =
     (if op_image self \<noteq> '''' then PyStr (op_image self)
      else (case edit_image ctx of None \<Rightarrow> PyNone | Some i \<Rightarrow> PyImage i))"

definition create_scene :: "(string, bdata) pyfun" where
  "create_scene st =
     (if scene_in SCENE_NAME st then scenes_get SCENE_NAME st else scenes_new SCENE_NAME st)"

text \<open>\<open>image_node.image = source_image\<close>: a pointer property accepts an image or None;
  a string raises TypeError.\<close>

definition assign_node_image :: "nat \<Rightarrow> pyval \<Rightarrow> (unit, ntree) pyfun" where
  "assign_node_image n v =
     (case v of
        PyStr s \<Rightarrow> raiseP TypeError
      | PyNone \<Rightarrow> node_set (\<lambda>ty. ty = CompositorNodeImage) n (\<lambda>nd. nd\<lparr>nd_image := None\<rparr>)
      | PyImage i \<Rightarrow> node_set (\<lambda>ty. ty = CompositorNodeImage) n (\<lambda>nd. nd\<lparr>nd_image := Some i\<rparr>))"

definition setup_compositor :: "string \<Rightarrow> pyval \<Rightarrow> op_props \<Rightarrow> (unit, bdata) pyfun" where
  "setup_compositor scene source_image self =
     bindP (set_use_nodes scene) (\<lambda>_.
     bindP (on_tree scene nodes_clear) (\<lambda>_.
     bindP (on_tree scene (nodes_new CompositorNodeImage)) (\<lambda>image_node.
     bindP (on_tree scene (nodes_new CompositorNodeDenoise)) (\<lambda>denoise_node.
     bindP (on_tree scene (nodes_new CompositorNodeViewer)) (\<lambda>viewer_node.
     bindP (on_tree scene (set_location image_node (-200, 0))) (\<lambda>_.
     bindP (on_tree scene (set_location denoise_node (0, 0))) (\<lambda>_.
     bindP (on_tree scene (set_location viewer_node (200, 0))) (\<lambda>_.
     bindP (on_tree scene (links_new (Input denoise_node 0) (Output image_node 0))) (\<lambda>_.
     bindP (on_tree scene (links_new (Input viewer_node 0) (Output denoise_node 0))) (\<lambda>_.
     bindP (on_tree scene (assign_node_image image_node source_image)) (\<lambda>_.
     bindP (on_tree scene (set_prefilter denoise_node (op_prefilter self))) (\<lambda>_.
     on_tree scene (set_use_hdr denoise_node (op_use_hdr self))))))))))))))"

definition find_viewer_image :: "(nat option, bdata) pyfun" where
  "find_viewer_image st = Ok (first_index is_compositing (images st)) st"

definition copy_pixels :: "pyval \<Rightarrow> nat option \<Rightarrow> (unit, bdata) pyfun" where
  "copy_pixels source_image viewer_image st =
     (case viewer_image of
        None \<Rightarrow> Exc AttributeError st
      | Some v \<Rightarrow>
          (case source_image of
             PyImage i \<Rightarrow> set_image_pixels i (pixels (images st ! v)) st
           | _ \<Rightarrow> Exc AttributeError st))"

definition execute :: "denoiser \<Rightarrow> op_props \<Rightarrow> bpy_context \<Rightarrow> (op_result, bdata) pyfun" where
  "execute oidn self ctx =
     (let source_image = source_of self ctx in
      bindP create_scene (\<lambda>scene.
      bindP (setup_compositor scene source_image self) (\<lambda>_.
      bindP (render_render oidn SCENE_NAME) (\<lambda>_.
      bindP find_viewer_image (\<lambda>viewer_image.
      bindP (copy_pixels source_image viewer_image) (\<lambda>_.
      bindP (scenes_remove scene) (\<lambda>_.
      returnP FINISHED)))))))"

section \<open>The properties dialog\<close>

text \<open>\<open>wm.invoke_props_dialog(self)\<close> (line 132) shows the visible properties,
  Prefilter and HDR; the user confirms with chosen values or cancels. Confirming
  runs \<open>execute\<close> on the operator with those values (the hidden \<open>image\<close> property is
  not in the dialog and keeps its value); cancelling ends the operator with
  CANCELLED and changes nothing.\<close>

datatype dialog_outcome = Dialog_OK prefilter bool | Dialog_cancel

definition invoke_run :: "denoiser \<Rightarrow> op_props \<Rightarrow> bpy_context \<Rightarrow> dialog_outcome \<Rightarrow> (op_result, bdata) pyfun" where
  "invoke_run oidn self ctx d =
     bindP (invoke self ctx) (\<lambda>_.
       (case d of
          Dialog_OK pf hdr \<Rightarrow> execute oidn (self\<lparr>op_prefilter := pf, op_use_hdr := hdr\<rparr>) ctx
        | Dialog_cancel \<Rightarrow> returnP CANCELLED))"

section \<open>The node tree the setup block builds\<close>

definition denoise_graph :: "nat option \<Rightarrow> prefilter \<Rightarrow> bool \<Rightarrow> ntree" where
  "denoise_graph img pf hdr =
     \<lparr>nodes = [(default_node CompositorNodeImage)\<lparr>nd_location := (-200, 0), nd_image := img\<rparr>,
               (default_node CompositorNodeDenoise)\<lparr>nd_prefilter := pf, nd_use_hdr := hdr\<rparr>,
               (default_node CompositorNodeViewer)\<lparr>nd_location := (200, 0)\<rparr>],
      links = [\<lparr>from_node = 0, from_socket = 0, to_node = 1, to_socket = 0\<rparr>,
               \<lparr>from_node = 1, from_socket = 0, to_node = 2, to_socket = 0\<rparr>]\<rparr>"


text \<open>The data after the setup block: the scene has compositing on and the tree \<open>t\<close>.\<close>

definition setup_state :: "string \<Rightarrow> ntree \<Rightarrow> bdata \<Rightarrow> bdata" where
  "setup_state nm t = upd_scene nm (\<lambda>s. s\<lparr>use_nodes := True, node_tree := Some t\<rparr>)"

text \<open>The data after the render of a run on image \<open>i\<close>: the scene is set up and the
  viewer image holds the denoiser's output.\<close>

definition rendered_state :: "denoiser \<Rightarrow> prefilter \<Rightarrow> bool \<Rightarrow> nat \<Rightarrow> bdata \<Rightarrow> bdata" where
  "rendered_state oidn pf hdr i st =
     (setup_state SCENE_NAME (denoise_graph (Some i) pf hdr)
        (if scene_in SCENE_NAME st then st else st\<lparr>scenes := scenes st @ [new_scene SCENE_NAME]\<rparr>))
     \<lparr>images := store_pixels (fst (ensure_viewer (images st))) (oidn pf hdr (pixels (images st ! i)))
                  (snd (ensure_viewer (images st)))\<rparr>"

text \<open>The images after a successful run: the denoised pixels are stored in the
  viewer image by the render and then copied onto the source image.\<close>

definition denoised_images :: "denoiser \<Rightarrow> prefilter \<Rightarrow> bool \<Rightarrow> nat \<Rightarrow> image list \<Rightarrow> image list" where
  "denoised_images oidn pf hdr i imgs =
     (let out = oidn pf hdr (pixels (imgs ! i))
      in store_pixels i out (store_pixels (fst (ensure_viewer imgs)) out (snd (ensure_viewer imgs))))"

section \<open>Example data for the witnesses\<close>

text \<open>A file with one scene and one 2-value image being edited, and a denoiser that
  halves every value (any function keeping the length would do).\<close>

definition example_data :: bdata where
  "example_data =
     \<lparr>scenes = [new_scene ''Scene''],
      images = [\<lparr>img_name = ''noise.png'', img_type = IMAGE, pixels = [1, 1 / 2]\<rparr>]\<rparr>"

definition example_ctx :: bpy_context where
  "example_ctx = \<lparr>edit_image = Some 0\<rparr>"

definition halve :: denoiser where
  "halve pf hdr p = map (\<lambda>x. x / 2) p"

section \<open>Lemmas on the blocks of execute\<close>

lemma length_denoise_graph [simp]: "length (nodes (denoise_graph img pf hdr)) = 3"
  by (simp add: denoise_graph_def)

lemma first_index_viewer_graph:
  "first_index (\<lambda>nd. nd_type nd = CompositorNodeViewer) (nodes (denoise_graph img pf hdr)) = Some 2"
  by (simp add: denoise_graph_def default_node_def numeral_2_eq_2)

lemma viewer_input_denoise_graph:
  assumes "img i = Some p" and "2 \<le> fuel"
  shows "viewer_input oidn img (denoise_graph (Some i) pf hdr) fuel 2 = Some (oidn pf hdr p)"
proof -
  from assms(2) obtain f where f: "fuel = Suc (Suc f)"
    by (metis add_2_eq_Suc le_Suc_ex)
  show ?thesis
    using assms(1)
    by (simp add: f viewer_input_def input_link_def denoise_graph_def default_node_def numeral_2_eq_2)
qed

lemma viewer_input_denoise_graph_short:
  "fuel < 2 \<Longrightarrow> viewer_input oidn img (denoise_graph img' pf hdr) fuel 2 = None"
  by (cases fuel)
     (simp_all add: viewer_input_def input_link_def denoise_graph_def default_node_def numeral_2_eq_2)

lemma create_scene_Ok:
  "create_scene st = Ok SCENE_NAME
     (if scene_in SCENE_NAME st then st else st\<lparr>scenes := scenes st @ [new_scene SCENE_NAME]\<rparr>)"
  by (simp add: create_scene_def scenes_get_def scenes_new_def)

lemma scene_in_created:
  "scene_in SCENE_NAME (if scene_in SCENE_NAME st then st else st\<lparr>scenes := scenes st @ [new_scene SCENE_NAME]\<rparr>)"
  by (simp add: scene_in_def new_scene_def)

lemma setup_compositor_result:
  assumes "scene_in scene st"
  shows "setup_compositor scene src self st =
     (case src of
        PyStr s \<Rightarrow> Exc TypeError (setup_state scene (denoise_graph None ACCURATE True) st)
      | PyNone \<Rightarrow> Ok () (setup_state scene (denoise_graph None (op_prefilter self) (op_use_hdr self)) st)
      | PyImage i \<Rightarrow> Ok () (setup_state scene (denoise_graph (Some i) (op_prefilter self) (op_use_hdr self)) st))"
proof -
  from assms obtain sc where sc: "find (\<lambda>s. sc_name s = scene) (scenes st) = Some sc"
    by (auto simp: scene_in_find)
  show ?thesis
    unfolding setup_compositor_def on_tree_bind_last
    using assms sc
    by (cases src)
       (simp_all add: pyfun_simps set_use_nodes_def on_tree_def put_tree_def upd_scene_upd_scene
         setup_state_def comp_def nodes_clear_empty assign_node_image_def denoise_graph_def
         numeral_2_eq_2)
qed

lemma render_denoise_graph:
  assumes "scene_in SCENE_NAME st" and "i < length (images st)"
  shows "render_render oidn SCENE_NAME (setup_state SCENE_NAME (denoise_graph (Some i) pf hdr) st) =
    Ok () ((setup_state SCENE_NAME (denoise_graph (Some i) pf hdr) st)\<lparr>images :=
       store_pixels (fst (ensure_viewer (images st))) (oidn pf hdr (pixels (images st ! i)))
         (snd (ensure_viewer (images st)))\<rparr>)"
proof -
  from assms(1) obtain sc where sc: "find (\<lambda>s. sc_name s = SCENE_NAME) (scenes st) = Some sc"
    by (auto simp: scene_in_find)
  have px: "image_px st i = Some (pixels (images st ! i))"
    using assms(2) by (simp add: image_px_def)
  have v: "viewer_input oidn (image_px st) (denoise_graph (Some i) pf hdr) 4 2 =
      Some (oidn pf hdr (pixels (images st ! i)))"
    using viewer_input_denoise_graph [of "image_px st" i, OF px] by simp
  show ?thesis
    using sc v
    by (simp add: render_render_def setup_state_def first_index_viewer_graph split: prod.split)
qed

text \<open>A run on the image being edited, up to the removal of the scene (line 126):
  the scene is set up, the render stores the denoised pixels in the viewer image,
  and line 123 copies them onto the source image.\<close>

lemma execute_until_copy:
  assumes ctx: "edit_image ctx = Some i" and img: "op_image self = ''''"
    and i: "i < length (images st)"
  shows "execute oidn self ctx st =
    bindP (copy_pixels (PyImage i) (Some (fst (ensure_viewer (images st))))) (\<lambda>_.
      bindP (scenes_remove SCENE_NAME) (\<lambda>_. returnP FINISHED))
    (rendered_state oidn (op_prefilter self) (op_use_hdr self) i st)"
proof -
  let ?pf = "op_prefilter self" and ?hdr = "op_use_hdr self"
  define st0 where "st0 = (if scene_in SCENE_NAME st then st
                           else st\<lparr>scenes := scenes st @ [new_scene SCENE_NAME]\<rparr>)"
  have c: "create_scene st = Ok SCENE_NAME st0"
    by (simp add: create_scene_Ok st0_def)
  have in0: "scene_in SCENE_NAME st0"
    unfolding st0_def by (rule scene_in_created)
  have im0: "images st0 = images st"
    by (simp add: st0_def)
  define st1 where "st1 = setup_state SCENE_NAME (denoise_graph (Some i) ?pf ?hdr) st0"
  have s1: "setup_compositor SCENE_NAME (PyImage i) self st0 = Ok () st1"
    using setup_compositor_result [OF in0] by (simp add: st1_def)
  have r: "render_render oidn SCENE_NAME st1 = Ok () (rendered_state oidn ?pf ?hdr i st)"
    using render_denoise_graph [OF in0, of i oidn ?pf ?hdr] i
    by (simp add: st1_def im0 rendered_state_def st0_def)
  have f: "find_viewer_image (rendered_state oidn ?pf ?hdr i st) =
      Ok (Some (fst (ensure_viewer (images st)))) (rendered_state oidn ?pf ?hdr i st)"
    by (simp add: find_viewer_image_def rendered_state_def first_index_ensure_viewer)
  show ?thesis
    using c s1 r f ctx img
    by (simp add: execute_def source_of_def Let_def bindP_apply)
qed

text \<open>The pixels of the images after the render: the viewer image holds the
  output, the others are as before.\<close>

lemma rendered_pixels:
  assumes "j < length (images st)"
  shows "pixels (images (rendered_state oidn pf hdr i st) ! j) =
    (if j = fst (ensure_viewer (images st)) then oidn pf hdr (pixels (images st ! i)) else pixels (images st ! j))"
  using assms length_ensure_viewer_ge [of "images st"]
  by (simp add: rendered_state_def pixels_store_pixels ensure_viewer_nth)

lemma execute_before_remove:
  assumes ctx: "edit_image ctx = Some i" and img: "op_image self = ''''"
    and i: "i < length (images st)"
    and len: "length (oidn (op_prefilter self) (op_use_hdr self) (pixels (images st ! i))) =
              length (pixels (images st ! i))"
  shows "execute oidn self ctx st = bindP (scenes_remove SCENE_NAME) (\<lambda>_. returnP FINISHED)
    ((setup_state SCENE_NAME (denoise_graph (Some i) (op_prefilter self) (op_use_hdr self))
       (if scene_in SCENE_NAME st then st else st\<lparr>scenes := scenes st @ [new_scene SCENE_NAME]\<rparr>))
       \<lparr>images := denoised_images oidn (op_prefilter self) (op_use_hdr self) i (images st)\<rparr>)"
proof -
  let ?pf = "op_prefilter self" and ?hdr = "op_use_hdr self"
  let ?out = "oidn ?pf ?hdr (pixels (images st ! i))"
  let ?vi = "fst (ensure_viewer (images st))" and ?imgs = "snd (ensure_viewer (images st))"
  let ?st2 = "rendered_state oidn ?pf ?hdr i st"
  have vi: "?vi < length ?imgs"
    by (rule ensure_viewer_index)
  have i2: "i < length ?imgs"
    using i length_ensure_viewer_ge [of "images st"] by linarith
  have pv: "pixels (images ?st2 ! ?vi) = ?out"
    using vi by (simp add: rendered_state_def pixels_store_pixels)
  have pi: "length (pixels (images ?st2 ! i)) = length ?out"
    using i len by (auto simp: rendered_pixels)
  have "copy_pixels (PyImage i) (Some ?vi) ?st2 =
      Ok () ((setup_state SCENE_NAME (denoise_graph (Some i) ?pf ?hdr)
        (if scene_in SCENE_NAME st then st else st\<lparr>scenes := scenes st @ [new_scene SCENE_NAME]\<rparr>))
        \<lparr>images := denoised_images oidn ?pf ?hdr i (images st)\<rparr>)"
    using i2 pv pi
    by (simp add: copy_pixels_def set_image_pixels_def rendered_state_def denoised_images_def Let_def)
  then show ?thesis
    using execute_until_copy [OF ctx img i, of oidn] by (simp add: bindP_apply)
qed


text \<open>The whole run when it succeeds: the data afterwards, computed exactly.\<close>

lemma execute_success:
  assumes ctx: "edit_image ctx = Some i" and img: "op_image self = ''''"
    and i: "i < length (images st)"
    and len: "length (oidn (op_prefilter self) (op_use_hdr self) (pixels (images st ! i))) =
              length (pixels (images st ! i))"
    and other: "list_ex (\<lambda>s. sc_name s \<noteq> SCENE_NAME) (scenes st)"
  shows "execute oidn self ctx st =
    Ok FINISHED \<lparr>scenes = filter (\<lambda>s. sc_name s \<noteq> SCENE_NAME) (scenes st),
                 images = denoised_images oidn (op_prefilter self) (op_use_hdr self) i (images st)\<rparr>"
proof -
  define st0 where "st0 = (if scene_in SCENE_NAME st then st
                           else st\<lparr>scenes := scenes st @ [new_scene SCENE_NAME]\<rparr>)"
  have in0: "scene_in SCENE_NAME st0"
    unfolding st0_def by (rule scene_in_created)
  have sc0: "filter (\<lambda>s. sc_name s \<noteq> SCENE_NAME) (scenes st0) =
             filter (\<lambda>s. sc_name s \<noteq> SCENE_NAME) (scenes st)"
    by (simp add: st0_def new_scene_def)
  have many0: "1 < length (scenes st0)"
  proof -
    from other obtain b where b0: "b \<in> set (scenes st)" and b1: "sc_name b \<noteq> SCENE_NAME"
      by (auto simp: list_ex_iff)
    from b0 have b: "b \<in> set (scenes st0)"
      by (simp add: st0_def)
    from in0 obtain a where a: "a \<in> set (scenes st0)" "sc_name a = SCENE_NAME"
      by (auto simp: scene_in_def list_ex_iff)
    from a b b1 show ?thesis by (metis two_in_set_length)
  qed
  show ?thesis
    using execute_before_remove [of ctx i self st oidn, OF ctx img i len] in0 many0 sc0
    by (simp add: scenes_remove_def setup_state_def st0_def [symmetric] bindP_apply)
qed

lemma denoised_images_source:
  "i < length imgs \<Longrightarrow> pixels (denoised_images oidn pf hdr i imgs ! i) = oidn pf hdr (pixels (imgs ! i))"
  using length_ensure_viewer_ge [of imgs]
  by (simp add: denoised_images_def Let_def pixels_store_pixels)

text \<open>A run with the hidden \<open>image\<close> property set: the scene is created (or
  reused) and set up up to line 110, where the string is assigned to the Image node.\<close>

lemma execute_string_source:
  assumes "op_image self \<noteq> ''''"
  shows "execute oidn self ctx st =
    Exc TypeError (setup_state SCENE_NAME (denoise_graph None ACCURATE True)
      (if scene_in SCENE_NAME st then st else st\<lparr>scenes := scenes st @ [new_scene SCENE_NAME]\<rparr>))"
proof -
  define st0 where "st0 = (if scene_in SCENE_NAME st then st
                           else st\<lparr>scenes := scenes st @ [new_scene SCENE_NAME]\<rparr>)"
  have "setup_compositor SCENE_NAME (PyStr (op_image self)) self st0 =
      Exc TypeError (setup_state SCENE_NAME (denoise_graph None ACCURATE True) st0)"
    using setup_compositor_result [OF scene_in_created [of st]] by (simp add: st0_def)
  then show ?thesis
    using assms create_scene_Ok [of st]
    by (simp add: execute_def source_of_def Let_def st0_def [symmetric])
qed

section \<open>Properties of execute\<close>

text \<open>C1. Denoising: when the operator runs on the image being edited (the hidden
  \<open>image\<close> property left empty), the denoiser keeps the number of pixel values, and
  some scene other than the temporary one exists, execute finishes and the source
  image holds the denoiser's output on its former pixels, with the dialog's
  prefilter and HDR settings.\<close>

theorem execute_denoises_source:
  assumes "edit_image ctx = Some i" and "op_image self = ''''"
    and "i < length (images st)"
    and "length (oidn (op_prefilter self) (op_use_hdr self) (pixels (images st ! i))) =
         length (pixels (images st ! i))"
    and "list_ex (\<lambda>s. sc_name s \<noteq> SCENE_NAME) (scenes st)"
  shows "\<exists>st'. execute oidn self ctx st = Ok FINISHED st' \<and>
           pixels (images st' ! i) = oidn (op_prefilter self) (op_use_hdr self) (pixels (images st ! i))"
  using execute_success [of ctx i self st oidn, OF assms] denoised_images_source [OF assms(3)] by simp

text \<open>C2. The temporary scene is removed, and with it any scene the user had named
  "Image Denoise Scene": after a successful run the scenes are exactly the former
  scenes of other names, in their order.\<close>

theorem execute_removes_scene_name:
  assumes "edit_image ctx = Some i" and "op_image self = ''''"
    and "i < length (images st)"
    and "length (oidn (op_prefilter self) (op_use_hdr self) (pixels (images st ! i))) =
         length (pixels (images st ! i))"
    and "list_ex (\<lambda>s. sc_name s \<noteq> SCENE_NAME) (scenes st)"
  shows "\<exists>st'. execute oidn self ctx st = Ok FINISHED st' \<and>
           scenes st' = filter (\<lambda>s. sc_name s \<noteq> SCENE_NAME) (scenes st)"
  using execute_success [of ctx i self st oidn, OF assms] by simp

text \<open>C3. The hidden \<open>image\<close> property is broken: a non-empty value is a string, and
  assigning it to the Image node's image raises TypeError. The run stops there and
  the temporary scene stays in the file; no image is changed.\<close>

theorem execute_image_property_error:
  assumes "op_image self \<noteq> ''''"
  shows "\<exists>st'. execute oidn self ctx st = Exc TypeError st' \<and>
           scene_in SCENE_NAME st' \<and> images st' = images st"
  using execute_string_source [OF assms, of oidn ctx st] scene_in_created [of st]
  by (simp add: setup_state_def)

theorem execute_denoises_source_witness:
  "edit_image example_ctx = Some 0 \<and> op_image op_defaults = '''' \<and>
   0 < length (images example_data) \<and>
   length (halve ACCURATE True (pixels (images example_data ! 0))) = length (pixels (images example_data ! 0)) \<and>
   list_ex (\<lambda>s. sc_name s \<noteq> SCENE_NAME) (scenes example_data) \<and>
   (\<exists>st'. execute halve op_defaults example_ctx example_data = Ok FINISHED st' \<and>
      pixels (images st' ! 0) = [1 / 2, 1 / 4])"
  using execute_denoises_source [of example_ctx 0 op_defaults example_data halve]
  by (simp add: example_ctx_def example_data_def op_defaults_def halve_def SCENE_NAME_def new_scene_def)

theorem execute_removes_scene_name_witness:
  "edit_image example_ctx = Some 0 \<and> op_image op_defaults = '''' \<and>
   0 < length (images example_data) \<and>
   length (halve ACCURATE True (pixels (images example_data ! 0))) = length (pixels (images example_data ! 0)) \<and>
   list_ex (\<lambda>s. sc_name s \<noteq> SCENE_NAME) (scenes example_data) \<and>
   (\<exists>st'. execute halve op_defaults example_ctx example_data = Ok FINISHED st' \<and>
      scenes st' = [new_scene ''Scene''])"
  using execute_removes_scene_name [of example_ctx 0 op_defaults example_data halve]
  by (simp add: example_ctx_def example_data_def op_defaults_def halve_def SCENE_NAME_def new_scene_def)

theorem execute_image_property_error_witness:
  "op_image (op_defaults\<lparr>op_image := ''noise.png''\<rparr>) \<noteq> '''' \<and>
   (\<exists>st'. execute halve (op_defaults\<lparr>op_image := ''noise.png''\<rparr>) example_ctx example_data = Exc TypeError st' \<and>
      scene_in SCENE_NAME st' \<and> images st' = images example_data)"
  using execute_image_property_error [of "op_defaults\<lparr>op_image := ''noise.png''\<rparr>" halve example_ctx example_data]
  by simp

section \<open>Helper lemmas for the further properties\<close>

lemma preserves_create_scene [intro]: "preserves bdata_wf create_scene"
  by (auto simp: preserves_def create_scene_def scenes_get_def scenes_new_def bdata_wf_def
                 scene_in_def new_scene_def list_ex_iff)

lemma preserves_setup_compositor [intro]: "preserves bdata_wf (setup_compositor scene src self)"
  unfolding setup_compositor_def by (intro preserves_bindP preserves_on_tree preserves_set_use_nodes)

lemma preserves_find_viewer_image [intro]: "preserves bdata_wf find_viewer_image"
  by (simp add: preserves_def find_viewer_image_def)

lemma preserves_copy_pixels [intro]: "preserves bdata_wf (copy_pixels src v)"
  using preserves_set_image_pixels
  by (auto simp: preserves_def copy_pixels_def split: option.split pyval.split)

lemma preserves_assign_node_image [intro]: "preserves tree_wf (assign_node_image n v)"
  by (cases v) (simp_all add: assign_node_image_def preserves_node_set preserves_raiseP)

lemma preserves_trees_wf_create_scene [intro]: "preserves trees_wf create_scene"
  by (simp add: create_scene_def preserves_def scenes_get_def scenes_new_def trees_wf_def new_scene_def)

lemma preserves_trees_wf_setup_compositor [intro]: "preserves trees_wf (setup_compositor scene src self)"
  unfolding setup_compositor_def set_location_def set_prefilter_def set_use_hdr_def
  by (intro preserves_bindP preserves_trees_wf_on_tree preserves_trees_wf_set_use_nodes
            preserves_tree_ops preserves_assign_node_image) simp_all

lemma preserves_trees_wf_copy_pixels [intro]: "preserves trees_wf (copy_pixels src v)"
  using preserves_trees_wf_set_image_pixels
  by (auto simp: preserves_def copy_pixels_def split: option.split pyval.split)

lemma preserves_scene_in_setup_compositor [intro]: "preserves (scene_in m) (setup_compositor scene src self)"
  unfolding setup_compositor_def
  by (intro preserves_bindP preserves_scene_in_on_tree preserves_scene_in_set_use_nodes)

lemma preserves_scene_in_copy_pixels [intro]: "preserves (scene_in m) (copy_pixels src v)"
  using preserves_scene_in_set_image_pixels
  by (auto simp: preserves_def copy_pixels_def split: option.split pyval.split)

lemma setup_state_leftover:
  assumes "\<not> scene_in SCENE_NAME st" and "sc_name lo = SCENE_NAME"
  shows "setup_state SCENE_NAME t (st\<lparr>scenes := scenes st @ [lo]\<rparr>) =
         setup_state SCENE_NAME t (st\<lparr>scenes := scenes st @ [new_scene SCENE_NAME]\<rparr>)"
proof -
  have none: "\<not> list_ex (\<lambda>s. sc_name s = SCENE_NAME) (scenes st)"
    using assms(1) by (simp add: scene_in_def)
  have "lo\<lparr>use_nodes := True, node_tree := Some t\<rparr> =
        (new_scene SCENE_NAME)\<lparr>use_nodes := True, node_tree := Some t\<rparr>"
    using assms(2) by (cases lo) (simp add: new_scene_def)
  then show ?thesis
    using assms(2) none
    by (simp add: setup_state_def upd_scene_def map_where_append map_where_ident
                  map_where_def new_scene_def)
qed

lemma denoised_images_other:
  assumes "j < length imgs" and "j \<noteq> i" and "\<not> is_compositing (imgs ! j)"
  shows "denoised_images oidn pf hdr i imgs ! j = imgs ! j"
proof -
  let ?vi = "fst (ensure_viewer imgs)" and ?imgs = "snd (ensure_viewer imgs)"
  have j: "j < length ?imgs"
    using assms(1) length_ensure_viewer_ge [of imgs] by linarith
  have nth: "?imgs ! j = imgs ! j"
    using assms(1) by (rule ensure_viewer_nth)
  have "?vi \<noteq> j"
    using ensure_viewer_is_compositing [of imgs] nth assms(3) by auto
  with assms(2) j nth show ?thesis
    by (simp add: denoised_images_def Let_def store_pixels_nth)
qed

lemma length_denoised_images:
  "length (denoised_images oidn pf hdr i imgs) = length (snd (ensure_viewer imgs))"
  by (simp add: denoised_images_def Let_def)

lemma viewer_input_denoise_graph_no_image:
  "viewer_input oidn img (denoise_graph None pf hdr) fuel 2 = None"
proof (cases fuel)
  case 0
  then show ?thesis
    by (simp add: viewer_input_def input_link_def denoise_graph_def default_node_def numeral_2_eq_2)
next
  case (Suc f)
  then show ?thesis
    by (cases f) (simp_all add: viewer_input_def input_link_def denoise_graph_def default_node_def numeral_2_eq_2)
qed

lemma render_denoise_graph_no_image:
  assumes "scene_in SCENE_NAME st"
  shows "render_render oidn SCENE_NAME (setup_state SCENE_NAME (denoise_graph None pf hdr) st) =
    Ok () ((setup_state SCENE_NAME (denoise_graph None pf hdr) st)\<lparr>images := snd (ensure_viewer (images st))\<rparr>)"
proof -
  from assms obtain sc where "find (\<lambda>s. sc_name s = SCENE_NAME) (scenes st) = Some sc"
    by (auto simp: scene_in_find)
  then show ?thesis
    by (simp add: render_render_def setup_state_def first_index_viewer_graph
                  viewer_input_denoise_graph_no_image split: prod.split)
qed

text \<open>A run without an image being edited (\<open>poll\<close> bypassed): the graph is built
  with an empty Image node, the render leaves the viewer image as it is, and line 123
  reads \<open>pixels\<close> of None: AttributeError.\<close>

lemma execute_no_source:
  assumes img: "op_image self = ''''" and ctx: "edit_image ctx = None"
  shows "execute oidn self ctx st =
    Exc AttributeError ((setup_state SCENE_NAME (denoise_graph None (op_prefilter self) (op_use_hdr self))
       (if scene_in SCENE_NAME st then st else st\<lparr>scenes := scenes st @ [new_scene SCENE_NAME]\<rparr>))
       \<lparr>images := snd (ensure_viewer (images st))\<rparr>)"
proof -
  define st0 where "st0 = (if scene_in SCENE_NAME st then st
                           else st\<lparr>scenes := scenes st @ [new_scene SCENE_NAME]\<rparr>)"
  have in0: "scene_in SCENE_NAME st0"
    unfolding st0_def by (rule scene_in_created)
  have im0: "images st0 = images st"
    by (simp add: st0_def)
  define st1 where "st1 = setup_state SCENE_NAME (denoise_graph None (op_prefilter self) (op_use_hdr self)) st0"
  have s1: "setup_compositor SCENE_NAME PyNone self st0 = Ok () st1"
    using setup_compositor_result [OF in0] by (simp add: st1_def)
  have r: "render_render oidn SCENE_NAME st1 = Ok () (st1\<lparr>images := snd (ensure_viewer (images st))\<rparr>)"
    using render_denoise_graph_no_image [OF in0] by (simp add: st1_def im0)
  show ?thesis
    using create_scene_Ok [of st] s1 r img ctx
    by (simp add: execute_def source_of_def Let_def bindP_apply st0_def [symmetric] st1_def [symmetric]
                  find_viewer_image_def copy_pixels_def split: option.split)
qed

text \<open>In a well-formed file whose scenes all carry the temporary name, that scene is
  the only one.\<close>

lemma only_temp_scene:
  assumes "bdata_wf st" and "\<not> list_ex (\<lambda>s. sc_name s \<noteq> SCENE_NAME) (scenes st)"
  shows "length (scenes st) \<le> 1 \<and> scene_in SCENE_NAME st"
proof -
  have named: "\<forall>s\<in>set (scenes st). sc_name s = SCENE_NAME"
    using assms(2) by (simp add: list_ex_iff)
  have "length (scenes st) \<le> 1"
    using assms(1) named by (intro length_le_1_same_key [of sc_name _ SCENE_NAME]) (simp_all add: bdata_wf_def)
  moreover have "scene_in SCENE_NAME st"
    using assms(1) named by (cases "scenes st") (simp_all add: bdata_wf_def scene_in_def)
  ultimately show ?thesis ..
qed

text \<open>The run on the only scene, named like the temporary scene: everything up to
  line 126 happens, then the removal of the last scene raises RuntimeError.\<close>

lemma execute_remove_fails:
  assumes ctx: "edit_image ctx = Some i" and img: "op_image self = ''''"
    and i: "i < length (images st)"
    and len: "length (oidn (op_prefilter self) (op_use_hdr self) (pixels (images st ! i))) =
              length (pixels (images st ! i))"
    and wf: "bdata_wf st" and only: "\<not> list_ex (\<lambda>s. sc_name s \<noteq> SCENE_NAME) (scenes st)"
  shows "execute oidn self ctx st = Exc RuntimeError
    ((setup_state SCENE_NAME (denoise_graph (Some i) (op_prefilter self) (op_use_hdr self)) st)
       \<lparr>images := denoised_images oidn (op_prefilter self) (op_use_hdr self) i (images st)\<rparr>)"
  using execute_before_remove [of ctx i self st oidn, OF ctx img i len] only_temp_scene [OF wf only]
  by (simp add: scenes_remove_def setup_state_def bindP_apply)

text \<open>After a run the viewer image exists: a second run finds it and adds no image.\<close>

lemma ensure_viewer_denoised:
  "ensure_viewer (denoised_images oidn pf hdr i imgs) = (fst (ensure_viewer imgs), denoised_images oidn pf hdr i imgs)"
proof -
  have "first_index is_compositing (denoised_images oidn pf hdr i imgs) = Some (fst (ensure_viewer imgs))"
    by (simp add: denoised_images_def Let_def first_index_ensure_viewer)
  then show ?thesis
    by (simp add: ensure_viewer_def [of "denoised_images oidn pf hdr i imgs"])
qed

lemma preserves_execute_bdata_wf [intro]: "preserves bdata_wf (execute oidn self ctx)"
  unfolding execute_def Let_def
  by (intro preserves_bindP preserves_returnP preserves_create_scene preserves_setup_compositor
            preserves_render_render preserves_find_viewer_image preserves_copy_pixels
            preserves_scenes_remove)

lemma preserves_execute_trees_wf [intro]: "preserves trees_wf (execute oidn self ctx)"
  unfolding execute_def Let_def find_viewer_image_def
  by (intro preserves_bindP preserves_returnP preserves_trees_wf_create_scene
            preserves_trees_wf_setup_compositor preserves_trees_wf_render_render
            preserves_trees_wf_copy_pixels preserves_trees_wf_scenes_remove)
     (simp add: preserves_def)

lemma preserves_invoke_run [intro]:
  "preserves bdata_wf (invoke_run oidn self ctx d) \<and> preserves trees_wf (invoke_run oidn self ctx d)"
  by (cases d) (simp_all add: invoke_run_def invoke_def bindP_return_left preserves_execute_bdata_wf
                               preserves_execute_trees_wf, simp_all add: preserves_def)

text \<open>Two runs in a row, computed exactly.\<close>

lemma pixels_denoised_twice:
  "i < length imgs \<Longrightarrow>
   pixels (denoised_images oidn pf hdr i (denoised_images oidn pf hdr i imgs) ! i) =
   oidn pf hdr (oidn pf hdr (pixels (imgs ! i)))"
  using length_ensure_viewer_ge [of imgs]
  by (simp add: denoised_images_source length_denoised_images)

lemma execute_success_twice:
  assumes ctx: "edit_image ctx = Some i" and img: "op_image self = ''''"
    and i: "i < length (images st)"
    and ok: "\<forall>p. length (oidn (op_prefilter self) (op_use_hdr self) p) = length p"
    and other: "list_ex (\<lambda>s. sc_name s \<noteq> SCENE_NAME) (scenes st)"
  shows "\<exists>st1. execute oidn self ctx st = Ok FINISHED st1 \<and>
    images st1 = denoised_images oidn (op_prefilter self) (op_use_hdr self) i (images st) \<and>
    execute oidn self ctx st1 =
    Ok FINISHED \<lparr>scenes = filter (\<lambda>s. sc_name s \<noteq> SCENE_NAME) (scenes st),
      images = denoised_images oidn (op_prefilter self) (op_use_hdr self) i
                 (denoised_images oidn (op_prefilter self) (op_use_hdr self) i (images st))\<rparr>"
proof -
  let ?pf = "op_prefilter self" and ?hdr = "op_use_hdr self"
  define st1 where "st1 = \<lparr>scenes = filter (\<lambda>s. sc_name s \<noteq> SCENE_NAME) (scenes st),
                           images = denoised_images oidn ?pf ?hdr i (images st)\<rparr>"
  have e1: "execute oidn self ctx st = Ok FINISHED st1"
    using execute_success [of ctx i self st oidn, OF ctx img i _ other] ok by (simp add: st1_def)
  have i1: "i < length (images st1)"
    using i length_ensure_viewer_ge [of "images st"] by (simp add: st1_def length_denoised_images)
  have other1: "list_ex (\<lambda>s. sc_name s \<noteq> SCENE_NAME) (scenes st1)"
    using other by (auto simp: st1_def list_ex_iff)
  have "execute oidn self ctx st1 =
      Ok FINISHED \<lparr>scenes = filter (\<lambda>s. sc_name s \<noteq> SCENE_NAME) (scenes st1),
                   images = denoised_images oidn ?pf ?hdr i (images st1)\<rparr>"
    using execute_success [of ctx i self st1 oidn, OF ctx img i1 _ other1] ok by simp
  with e1 show ?thesis by (auto simp: st1_def)
qed

lemma user_scenes_setup_state [simp]:
  "filter (\<lambda>s. sc_name s \<noteq> SCENE_NAME) (scenes (setup_state SCENE_NAME t st)) =
   filter (\<lambda>s. sc_name s \<noteq> SCENE_NAME) (scenes st)"
  by (simp add: setup_state_def upd_scene_def filter_map_where)

lemma images_setup_state [simp]: "images (setup_state nm t st) = images st"
  by (simp add: setup_state_def)

lemma user_scenes_created [simp]:
  "filter (\<lambda>s. sc_name s \<noteq> SCENE_NAME)
     (scenes (if scene_in SCENE_NAME st then st else st\<lparr>scenes := scenes st @ [new_scene SCENE_NAME]\<rparr>)) =
   filter (\<lambda>s. sc_name s \<noteq> SCENE_NAME) (scenes st)"
  by (simp add: new_scene_def)

lemma scene_in_rendered_state: "scene_in SCENE_NAME (rendered_state oidn pf hdr i st)"
  using scene_in_created [of st] by (simp add: rendered_state_def setup_state_def)

section \<open>Further properties of the operator\<close>

text \<open>C4. A temporary scene left behind by an interrupted run (for example by the
  TypeError of C3) is reused: running execute on the data with that leftover scene,
  whatever its node tree, gives exactly the outcome of running it on the data
  without it, error outcomes included.\<close>

theorem execute_reuses_leftover_scene:
  assumes "\<not> scene_in SCENE_NAME st" and "sc_name lo = SCENE_NAME"
  shows "execute oidn self ctx (st\<lparr>scenes := scenes st @ [lo]\<rparr>) = execute oidn self ctx st"
proof -
  let ?a = "st\<lparr>scenes := scenes st @ [lo]\<rparr>"
  let ?b = "st\<lparr>scenes := scenes st @ [new_scene SCENE_NAME]\<rparr>"
  have in_a: "scene_in SCENE_NAME ?a"
    using assms(2) by (simp add: scene_in_def)
  have in_b: "scene_in SCENE_NAME ?b"
    by (simp add: scene_in_def new_scene_def)
  have ca: "create_scene ?a = Ok SCENE_NAME ?a"
    using in_a by (simp add: create_scene_Ok)
  have cb: "create_scene st = Ok SCENE_NAME ?b"
    using assms(1) by (simp add: create_scene_Ok)
  have s: "setup_compositor SCENE_NAME src self ?a = setup_compositor SCENE_NAME src self ?b" for src
    by (simp add: setup_compositor_result [OF in_a] setup_compositor_result [OF in_b]
                  setup_state_leftover [OF assms] split: pyval.split)
  show ?thesis
    by (simp add: execute_def Let_def bindP_apply ca cb s)
qed


text \<open>C5. Frame of a successful run: the image list grows by at most the viewer
  image, and every former image other than the source and the compositing images is
  left as it was.\<close>

theorem execute_frame:
  assumes "edit_image ctx = Some i" and "op_image self = ''''"
    and "i < length (images st)"
    and "length (oidn (op_prefilter self) (op_use_hdr self) (pixels (images st ! i))) =
         length (pixels (images st ! i))"
    and "list_ex (\<lambda>s. sc_name s \<noteq> SCENE_NAME) (scenes st)"
  shows "\<exists>st'. execute oidn self ctx st = Ok FINISHED st' \<and>
           length (images st) \<le> length (images st') \<and> length (images st') \<le> Suc (length (images st)) \<and>
           (\<forall>j < length (images st). j \<noteq> i \<and> \<not> is_compositing (images st ! j) \<longrightarrow>
              images st' ! j = images st ! j)"
  using execute_success [of ctx i self st oidn, OF assms] denoised_images_other
        length_denoised_images length_ensure_viewer [of "images st"]
  by auto

text \<open>C6. The setup block builds a graph the compositor evaluates: the scene has
  compositing on, its first Viewer node is the third node, and with fuel 2 or more
  the Viewer receives the denoiser's output on the source image's pixels, with the
  operator's settings; with less fuel nothing reaches it (2 is the graph's depth).\<close>

theorem setup_compositor_builds_graph:
  assumes "scene_in scene st" and "img i = Some p"
  shows "\<exists>st' sc t. setup_compositor scene (PyImage i) self st = Ok () st' \<and>
           find (\<lambda>s. sc_name s = scene) (scenes st') = Some sc \<and> use_nodes sc \<and>
           node_tree sc = Some t \<and>
           first_index (\<lambda>nd. nd_type nd = CompositorNodeViewer) (nodes t) = Some 2 \<and>
           (\<forall>fuel. 2 \<le> fuel \<longrightarrow>
              viewer_input oidn img t fuel 2 = Some (oidn (op_prefilter self) (op_use_hdr self) p)) \<and>
           (\<forall>fuel < 2. viewer_input oidn img t fuel 2 = None)"
proof -
  let ?G = "denoise_graph (Some i) (op_prefilter self) (op_use_hdr self)"
  from assms(1) obtain sc0 where sc0: "find (\<lambda>s. sc_name s = scene) (scenes st) = Some sc0"
    by (auto simp: scene_in_find)
  have "setup_compositor scene (PyImage i) self st = Ok () (setup_state scene ?G st)"
    using setup_compositor_result [OF assms(1)] by simp
  moreover have "find (\<lambda>s. sc_name s = scene) (scenes (setup_state scene ?G st)) =
      Some (sc0\<lparr>use_nodes := True, node_tree := Some ?G\<rparr>)"
    using sc0 by (simp add: setup_state_def)
  moreover have "\<forall>fuel. 2 \<le> fuel \<longrightarrow>
      viewer_input oidn img ?G fuel 2 = Some (oidn (op_prefilter self) (op_use_hdr self) p)"
    using viewer_input_denoise_graph [where img = img and i = i and p = p, OF assms(2)] by blast
  moreover have "\<forall>fuel < 2. viewer_input oidn img ?G fuel 2 = None"
    using viewer_input_denoise_graph_short by blast
  ultimately show ?thesis
    using first_index_viewer_graph by auto
qed


text \<open>C16. Line 126 fails after the work is done: when every scene of a well-formed
  file is named "Image Denoise Scene" (so it is the only scene), execute reuses it,
  denoises the image, and then \<open>bpy.data.scenes.remove\<close> raises RuntimeError on
  the last scene; the source image has already been overwritten and the scene
  stays.\<close>

theorem execute_last_scene_error:
  assumes ctx: "edit_image ctx = Some i" and img: "op_image self = ''''"
    and i: "i < length (images st)"
    and len: "length (oidn (op_prefilter self) (op_use_hdr self) (pixels (images st ! i))) =
              length (pixels (images st ! i))"
    and wf: "bdata_wf st" and only: "\<not> list_ex (\<lambda>s. sc_name s \<noteq> SCENE_NAME) (scenes st)"
  shows "\<exists>st'. execute oidn self ctx st = Exc RuntimeError st' \<and>
           pixels (images st' ! i) = oidn (op_prefilter self) (op_use_hdr self) (pixels (images st ! i)) \<and>
           scene_in SCENE_NAME st'"
  using execute_remove_fails [of ctx i self st oidn, OF ctx img i len wf only] only_temp_scene [OF wf only]
    denoised_images_source [OF i, of oidn "op_prefilter self" "op_use_hdr self"]
  by (simp add: setup_state_def)


text \<open>C20. The dialog of \<open>invoke\<close>: cancelling changes nothing and ends with
  CANCELLED; confirming with a prefilter and an HDR setting denoises the edited
  image with exactly those settings, whatever the operator's stored values.\<close>

theorem invoke_dialog_denoises:
  assumes "edit_image ctx = Some i" and "op_image self = ''''"
    and "i < length (images st)"
    and "length (oidn pf hdr (pixels (images st ! i))) = length (pixels (images st ! i))"
    and "list_ex (\<lambda>s. sc_name s \<noteq> SCENE_NAME) (scenes st)"
  shows "invoke_run oidn self ctx Dialog_cancel st = Ok CANCELLED st \<and>
         (\<exists>st'. invoke_run oidn self ctx (Dialog_OK pf hdr) st = Ok FINISHED st' \<and>
            pixels (images st' ! i) = oidn pf hdr (pixels (images st ! i)))"
proof -
  have "execute oidn (self\<lparr>op_prefilter := pf, op_use_hdr := hdr\<rparr>) ctx st =
     Ok FINISHED \<lparr>scenes = filter (\<lambda>s. sc_name s \<noteq> SCENE_NAME) (scenes st),
                  images = denoised_images oidn pf hdr i (images st)\<rparr>"
    using execute_success [of ctx i "self\<lparr>op_prefilter := pf, op_use_hdr := hdr\<rparr>" st oidn] assms by simp
  then show ?thesis
    using denoised_images_source [OF assms(3), of oidn pf hdr]
    by (simp add: invoke_run_def invoke_def bindP_return_left)
qed

text \<open>C21. There is no \<open>try\<close>/\<open>finally\<close> around the body: whenever execute raises,
  whatever the exception and wherever it is raised, the temporary scene is still
  in the file afterwards.\<close>

theorem execute_error_leaves_scene:
  assumes "execute oidn self ctx st = Exc e st'"
  shows "scene_in SCENE_NAME st'"
proof -
  define st0 where "st0 = (if scene_in SCENE_NAME st then st
                           else st\<lparr>scenes := scenes st @ [new_scene SCENE_NAME]\<rparr>)"
  have in0: "scene_in SCENE_NAME st0"
    unfolding st0_def by (rule scene_in_created)
  have ek: "exc_keeps (scene_in SCENE_NAME)
     (bindP (setup_compositor SCENE_NAME (source_of self ctx) self) (\<lambda>_.
      bindP (render_render oidn SCENE_NAME) (\<lambda>_.
      bindP find_viewer_image (\<lambda>viewer_image.
      bindP (copy_pixels (source_of self ctx) viewer_image) (\<lambda>_.
      bindP (scenes_remove SCENE_NAME) (\<lambda>_. returnP FINISHED))))))"
    unfolding find_viewer_image_def
    by (intro exc_keeps_bindP exc_keeps_bindP_returnP exc_keeps_scenes_remove
              preserves_scene_in_setup_compositor preserves_scene_in_render_render
              preserves_scene_in_copy_pixels) (simp add: preserves_def)
  have "execute oidn self ctx st =
     bindP (setup_compositor SCENE_NAME (source_of self ctx) self) (\<lambda>_.
      bindP (render_render oidn SCENE_NAME) (\<lambda>_.
      bindP find_viewer_image (\<lambda>viewer_image.
      bindP (copy_pixels (source_of self ctx) viewer_image) (\<lambda>_.
      bindP (scenes_remove SCENE_NAME) (\<lambda>_. returnP FINISHED))))) st0"
    using create_scene_Ok [of st] by (simp add: execute_def Let_def st0_def [symmetric])
  with assms ek in0 show ?thesis by (auto simp: exc_keeps_def)
qed

text \<open>C23. Line 123 raises ValueError exactly when the denoiser's output has another
  number of values than the source image (for a source that is not the viewer image
  itself); the source image then keeps its pixels and the temporary scene stays.\<close>

theorem execute_value_error_iff:
  assumes ctx: "edit_image ctx = Some i" and img: "op_image self = ''''"
    and i: "i < length (images st)" and src: "\<not> is_compositing (images st ! i)"
  shows "(\<exists>st'. execute oidn self ctx st = Exc ValueError st' \<and>
            pixels (images st' ! i) = pixels (images st ! i) \<and> scene_in SCENE_NAME st') \<longleftrightarrow>
         length (oidn (op_prefilter self) (op_use_hdr self) (pixels (images st ! i))) \<noteq> length (pixels (images st ! i))"
proof
  assume "\<exists>st'. execute oidn self ctx st = Exc ValueError st' \<and>
            pixels (images st' ! i) = pixels (images st ! i) \<and> scene_in SCENE_NAME st'"
  then obtain st' where e: "execute oidn self ctx st = Exc ValueError st'" by blast
  show "length (oidn (op_prefilter self) (op_use_hdr self) (pixels (images st ! i))) \<noteq> length (pixels (images st ! i))"
  proof
    assume len: "length (oidn (op_prefilter self) (op_use_hdr self) (pixels (images st ! i))) = length (pixels (images st ! i))"
    from e execute_before_remove [of ctx i self st oidn, OF ctx img i len] show False
      by (simp add: scenes_remove_def bindP_apply split: if_splits)
  qed
next
  let ?pf = "op_prefilter self" and ?hdr = "op_use_hdr self"
  let ?vi = "fst (ensure_viewer (images st))"
  let ?st2 = "rendered_state oidn ?pf ?hdr i st"
  assume len: "length (oidn ?pf ?hdr (pixels (images st ! i))) \<noteq> length (pixels (images st ! i))"
  have ne: "i \<noteq> ?vi"
    using ensure_viewer_is_compositing [of "images st"] ensure_viewer_nth [OF i] src by auto
  have vi: "?vi < length (images ?st2)"
    using ensure_viewer_index [of "images st"] by (simp add: rendered_state_def)
  have pv: "pixels (images ?st2 ! ?vi) = oidn ?pf ?hdr (pixels (images st ! i))"
    using ensure_viewer_index [of "images st"] by (simp add: rendered_state_def pixels_store_pixels)
  have pi: "pixels (images ?st2 ! i) = pixels (images st ! i)"
    using i ne by (simp add: rendered_pixels)
  have i2: "i < length (images ?st2)"
    using i length_ensure_viewer_ge [of "images st"] by (simp add: rendered_state_def)
  have cp: "copy_pixels (PyImage i) (Some ?vi) ?st2 = Exc ValueError ?st2"
    using i2 pv pi len by (simp add: copy_pixels_def set_image_pixels_def)
  have "scene_in SCENE_NAME ?st2"
    by (rule scene_in_rendered_state)
  with cp pi execute_until_copy [OF ctx img i, of oidn] show
    "\<exists>st'. execute oidn self ctx st = Exc ValueError st' \<and>
       pixels (images st' ! i) = pixels (images st ! i) \<and> scene_in SCENE_NAME st'"
    by (simp add: bindP_apply)
qed

text \<open>C24. Two runs in a row on the edited image: both finish, the image then holds
  the denoiser applied twice, and the second run adds no image (it reuses the
  viewer image of the first) and leaves the scenes as the first left them.\<close>

theorem execute_twice:
  assumes ctx: "edit_image ctx = Some i" and img: "op_image self = ''''"
    and i: "i < length (images st)"
    and ok: "\<forall>p. length (oidn (op_prefilter self) (op_use_hdr self) p) = length p"
    and other: "list_ex (\<lambda>s. sc_name s \<noteq> SCENE_NAME) (scenes st)"
  shows "\<exists>st1 st2. execute oidn self ctx st = Ok FINISHED st1 \<and> execute oidn self ctx st1 = Ok FINISHED st2 \<and>
           pixels (images st2 ! i) =
             oidn (op_prefilter self) (op_use_hdr self) (oidn (op_prefilter self) (op_use_hdr self) (pixels (images st ! i))) \<and>
           length (images st2) = length (images st1) \<and> scenes st2 = scenes st1"
proof -
  let ?pf = "op_prefilter self" and ?hdr = "op_use_hdr self"
  let ?imgs1 = "denoised_images oidn ?pf ?hdr i (images st)"
  obtain st1 where e1: "execute oidn self ctx st = Ok FINISHED st1" and im1: "images st1 = ?imgs1"
    and e2: "execute oidn self ctx st1 = Ok FINISHED \<lparr>scenes = filter (\<lambda>s. sc_name s \<noteq> SCENE_NAME) (scenes st),
               images = denoised_images oidn ?pf ?hdr i ?imgs1\<rparr>"
    using execute_success_twice [of ctx i self st oidn, OF ctx img i ok other] by blast
  have sc1: "scenes st1 = filter (\<lambda>s. sc_name s \<noteq> SCENE_NAME) (scenes st)"
    using e1 execute_success [of ctx i self st oidn, OF ctx img i _ other] ok by auto
  have "pixels (denoised_images oidn ?pf ?hdr i ?imgs1 ! i) = oidn ?pf ?hdr (oidn ?pf ?hdr (pixels (images st ! i)))"
    using i by (rule pixels_denoised_twice)
  moreover have "length (denoised_images oidn ?pf ?hdr i ?imgs1) = length ?imgs1"
    by (simp add: length_denoised_images ensure_viewer_denoised)
  ultimately show ?thesis
    using e1 e2 im1 sc1 by auto
qed

text \<open>C26. The lookups of execute are all guarded: with the edited image (if any)
  present, execute raises only TypeError (the \<open>image\<close> property), AttributeError
  (no image edited), ValueError (a denoiser output of another size) or RuntimeError
  (the last scene); never KeyError for \<open>scenes[SCENE_NAME]\<close>, IndexError for a
  node socket, or ReferenceError for a removed node, scene or image.\<close>

theorem execute_exceptions:
  assumes src: "pred_option (\<lambda>i. i < length (images st)) (edit_image ctx)"
    and e: "execute oidn self ctx st = Exc err st'"
  shows "err \<in> {TypeError, AttributeError, ValueError, RuntimeError}"
proof (cases "op_image self = ''''")
  case False
  with e execute_string_source [OF False, of oidn ctx st] show ?thesis by simp
next
  case img: True
  show ?thesis
  proof (cases "edit_image ctx")
    case None
    with e execute_no_source [OF img None, of oidn st] show ?thesis by simp
  next
    case (Some i)
    with src have i: "i < length (images st)" by simp
    let ?st2 = "rendered_state oidn (op_prefilter self) (op_use_hdr self) i st"
    have i2: "i < length (images ?st2)"
      using i length_ensure_viewer_ge [of "images st"] by (simp add: rendered_state_def)
    have "scene_in SCENE_NAME (res_state (copy_pixels (PyImage i) (Some (fst (ensure_viewer (images st)))) ?st2))"
      using scene_in_rendered_state [of oidn "op_prefilter self" "op_use_hdr self" i st]
      by (simp add: copy_pixels_def set_image_pixels_def)
    with e i2 execute_until_copy [OF Some img i, of oidn] show ?thesis
      by (auto simp: bindP_apply copy_pixels_def set_image_pixels_def scenes_remove_def
               split: if_splits res.splits)
  qed
qed


theorem execute_reuses_leftover_scene_witness:
  "\<not> scene_in SCENE_NAME example_data \<and> sc_name (new_scene SCENE_NAME) = SCENE_NAME \<and>
   execute halve op_defaults example_ctx
     (example_data\<lparr>scenes := scenes example_data @ [new_scene SCENE_NAME]\<rparr>) =
   execute halve op_defaults example_ctx example_data"
  using execute_reuses_leftover_scene [of example_data "new_scene SCENE_NAME" halve op_defaults example_ctx]
  by (simp add: example_data_def scene_in_def new_scene_def SCENE_NAME_def)


theorem execute_frame_witness:
  "edit_image example_ctx = Some 0 \<and> op_image op_defaults = '''' \<and>
   0 < length (images example_data) \<and>
   length (halve ACCURATE True (pixels (images example_data ! 0))) = length (pixels (images example_data ! 0)) \<and>
   list_ex (\<lambda>s. sc_name s \<noteq> SCENE_NAME) (scenes example_data) \<and>
   (\<exists>st'. execute halve op_defaults example_ctx example_data = Ok FINISHED st' \<and>
      length (images st') \<le> 2)"
  using execute_frame [of example_ctx 0 op_defaults example_data halve]
  by (auto simp: example_ctx_def example_data_def op_defaults_def halve_def SCENE_NAME_def new_scene_def)

theorem setup_compositor_builds_graph_witness:
  "scene_in ''Scene'' example_data \<and> image_px example_data 0 = Some [1, 1 / 2] \<and>
   (\<exists>st' sc t. setup_compositor ''Scene'' (PyImage 0) op_defaults example_data = Ok () st' \<and>
      find (\<lambda>s. sc_name s = ''Scene'') (scenes st') = Some sc \<and> node_tree sc = Some t \<and>
      viewer_input halve (image_px example_data) t 4 2 = Some [1 / 2, 1 / 4])"
proof -
  have h1: "scene_in ''Scene'' example_data"
    by (simp add: scene_in_def example_data_def new_scene_def)
  have h2: "image_px example_data 0 = Some [1, 1 / 2]"
    by (simp add: image_px_def example_data_def)
  show ?thesis
    using setup_compositor_builds_graph [where scene = "''Scene''" and st = example_data
      and img = "image_px example_data" and i = 0 and p = "[1, 1 / 2]" and self = op_defaults
      and oidn = halve, OF h1 h2] h1 h2
    by (fastforce simp: op_defaults_def halve_def)
qed


theorem execute_last_scene_error_witness:
  "edit_image example_ctx = Some 0 \<and> op_image op_defaults = '''' \<and>
   0 < length (images (example_data\<lparr>scenes := [new_scene SCENE_NAME]\<rparr>)) \<and>
   length (halve ACCURATE True (pixels (images example_data ! 0))) = length (pixels (images example_data ! 0)) \<and>
   bdata_wf (example_data\<lparr>scenes := [new_scene SCENE_NAME]\<rparr>) \<and>
   \<not> list_ex (\<lambda>s. sc_name s \<noteq> SCENE_NAME) [new_scene SCENE_NAME] \<and>
   (\<exists>st'. execute halve op_defaults example_ctx (example_data\<lparr>scenes := [new_scene SCENE_NAME]\<rparr>) =
      Exc RuntimeError st' \<and> pixels (images st' ! 0) = [1 / 2, 1 / 4] \<and> scene_in SCENE_NAME st')"
  using execute_last_scene_error [of example_ctx 0 op_defaults "example_data\<lparr>scenes := [new_scene SCENE_NAME]\<rparr>" halve]
  by (simp add: example_ctx_def example_data_def op_defaults_def halve_def bdata_wf_def new_scene_def)


theorem invoke_dialog_denoises_witness:
  "edit_image example_ctx = Some 0 \<and> op_image op_defaults = '''' \<and>
   0 < length (images example_data) \<and>
   length (halve FAST False (pixels (images example_data ! 0))) = length (pixels (images example_data ! 0)) \<and>
   list_ex (\<lambda>s. sc_name s \<noteq> SCENE_NAME) (scenes example_data) \<and>
   invoke_run halve op_defaults example_ctx Dialog_cancel example_data = Ok CANCELLED example_data \<and>
   (\<exists>st'. invoke_run halve op_defaults example_ctx (Dialog_OK FAST False) example_data = Ok FINISHED st' \<and>
      pixels (images st' ! 0) = [1 / 2, 1 / 4])"
  using invoke_dialog_denoises [of example_ctx 0 op_defaults example_data halve FAST False]
  by (simp add: example_ctx_def example_data_def op_defaults_def halve_def SCENE_NAME_def new_scene_def)

theorem execute_error_leaves_scene_witness:
  "execute halve op_defaults example_ctx (example_data\<lparr>scenes := [new_scene SCENE_NAME]\<rparr>) =
     Exc RuntimeError ((setup_state SCENE_NAME (denoise_graph (Some 0) ACCURATE True) (example_data\<lparr>scenes := [new_scene SCENE_NAME]\<rparr>))
       \<lparr>images := denoised_images halve ACCURATE True 0 (images example_data)\<rparr>) \<and>
   scene_in SCENE_NAME ((setup_state SCENE_NAME (denoise_graph (Some 0) ACCURATE True) (example_data\<lparr>scenes := [new_scene SCENE_NAME]\<rparr>))
       \<lparr>images := denoised_images halve ACCURATE True 0 (images example_data)\<rparr>)"
proof -
  have r: "execute halve op_defaults example_ctx (example_data\<lparr>scenes := [new_scene SCENE_NAME]\<rparr>) =
     Exc RuntimeError ((setup_state SCENE_NAME (denoise_graph (Some 0) ACCURATE True) (example_data\<lparr>scenes := [new_scene SCENE_NAME]\<rparr>))
       \<lparr>images := denoised_images halve ACCURATE True 0 (images example_data)\<rparr>)"
    using execute_remove_fails [of example_ctx 0 op_defaults "example_data\<lparr>scenes := [new_scene SCENE_NAME]\<rparr>" halve]
    by (simp add: example_ctx_def example_data_def op_defaults_def halve_def bdata_wf_def new_scene_def)
  with execute_error_leaves_scene [OF r] show ?thesis by simp
qed

theorem execute_value_error_iff_witness:
  "edit_image example_ctx = Some 0 \<and> op_image op_defaults = '''' \<and>
   0 < length (images example_data) \<and> \<not> is_compositing (images example_data ! 0) \<and>
   (\<exists>st'. execute (\<lambda>pf hdr p. p @ p) op_defaults example_ctx example_data = Exc ValueError st' \<and>
      pixels (images st' ! 0) = [1, 1 / 2] \<and> scene_in SCENE_NAME st')"
  using execute_value_error_iff [of example_ctx 0 op_defaults example_data "\<lambda>pf hdr p. p @ p"]
  by (simp add: example_ctx_def example_data_def op_defaults_def is_compositing_def)

theorem execute_twice_witness:
  "edit_image example_ctx = Some 0 \<and> op_image op_defaults = '''' \<and> 0 < length (images example_data) \<and>
   (\<forall>p. length (halve ACCURATE True p) = length p) \<and>
   list_ex (\<lambda>s. sc_name s \<noteq> SCENE_NAME) (scenes example_data) \<and>
   (\<exists>st1 st2. execute halve op_defaults example_ctx example_data = Ok FINISHED st1 \<and>
      execute halve op_defaults example_ctx st1 = Ok FINISHED st2 \<and>
      pixels (images st2 ! 0) = [1 / 4, 1 / 8] \<and> length (images st2) = length (images st1))"
  using execute_twice [of example_ctx 0 op_defaults example_data halve]
  by (simp add: example_ctx_def example_data_def op_defaults_def halve_def SCENE_NAME_def new_scene_def) blast

theorem execute_exceptions_witness:
  "pred_option (\<lambda>i. i < length (images example_data)) (edit_image example_ctx) \<and>
   execute halve (op_defaults\<lparr>op_image := ''noise.png''\<rparr>) example_ctx example_data =
     Exc TypeError (setup_state SCENE_NAME (denoise_graph None ACCURATE True)
       (example_data\<lparr>scenes := scenes example_data @ [new_scene SCENE_NAME]\<rparr>)) \<and>
   TypeError \<in> {TypeError, AttributeError, ValueError, RuntimeError}"
proof -
  have p: "pred_option (\<lambda>i. i < length (images example_data)) (edit_image example_ctx)"
    by (simp add: example_ctx_def example_data_def)
  have e: "execute halve (op_defaults\<lparr>op_image := ''noise.png''\<rparr>) example_ctx example_data =
     Exc TypeError (setup_state SCENE_NAME (denoise_graph None ACCURATE True)
       (example_data\<lparr>scenes := scenes example_data @ [new_scene SCENE_NAME]\<rparr>))"
    using execute_string_source [of "op_defaults\<lparr>op_image := ''noise.png''\<rparr>" halve example_ctx example_data]
    by (simp add: scene_in_def example_data_def new_scene_def SCENE_NAME_def)
  from execute_exceptions [OF p e] p e show ?thesis by simp
qed


end
