(* ===== verification/Refinement.thy ===== *)
theory Refinement
  imports Operator
begin

text \<open>
  What the operator promises, stated on the user's view of the file, and the proof
  that \<open>execute\<close> implements it. The user's view keeps the scenes of other names
  than the temporary scene and the images that are not the compositor's output
  (type COMPOSITING), each with its position in \<open>bpy.data.images\<close>. The abstract
  operation \<open>denoise_spec\<close> says what a call does to that view: with the hidden
  \<open>image\<close> property set it raises TypeError and changes nothing; without an image
  being edited it raises AttributeError and changes nothing; otherwise it replaces
  the pixels of the edited image by the denoiser's output, and it raises
  RuntimeError (after doing so) when no scene of another name exists.
\<close>

type_synonym user_state = "scene list \<times> (nat \<times> image) list"

definition user_images :: "image list \<Rightarrow> (nat \<times> image) list" where
  "user_images imgs = filter (\<lambda>(j, im). \<not> is_compositing im) (enumerate 0 imgs)"

definition user_view :: "bdata \<Rightarrow> user_state" where
  "user_view st = (filter (\<lambda>s. sc_name s \<noteq> SCENE_NAME) (scenes st), user_images (images st))"

definition denoise_in_place :: "denoiser \<Rightarrow> prefilter \<Rightarrow> bool \<Rightarrow> nat \<Rightarrow> user_state \<Rightarrow> user_state" where
  "denoise_in_place oidn pf hdr i u =
     (fst u, map (\<lambda>(j, im). if j = i then (j, im\<lparr>pixels := oidn pf hdr (pixels im)\<rparr>) else (j, im)) (snd u))"

definition denoise_spec :: "denoiser \<Rightarrow> op_props \<Rightarrow> bpy_context \<Rightarrow> (op_result, user_state) pyfun" where
  "denoise_spec oidn self ctx u =
     (if op_image self \<noteq> '''' then Exc TypeError u
      else (case edit_image ctx of
              None \<Rightarrow> Exc AttributeError u
            | Some i \<Rightarrow>
                (let u' = denoise_in_place oidn (op_prefilter self) (op_use_hdr self) i u
                 in if fst u = [] then Exc RuntimeError u' else Ok FINISHED u')))"

text \<open>A denoiser returns as many values as it is given (Open Image Denoise writes an
  image of the input's size).\<close>

definition denoiser_ok :: "denoiser \<Rightarrow> bool" where
  "denoiser_ok oidn \<longleftrightarrow> (\<forall>pf hdr p. length (oidn pf hdr p) = length p)"

section \<open>The user's view of the images\<close>

lemma is_compositing_pixels_update [simp]: "is_compositing (im\<lparr>pixels := p\<rparr>) = is_compositing im"
  by (simp add: is_compositing_def)

lemma filter_enumerate_store:
  "filter (\<lambda>(j, im). \<not> is_compositing im) (enumerate n (xs[k := (xs ! k)\<lparr>pixels := p\<rparr>])) =
   map (\<lambda>(j, im). if j = n + k then (j, im\<lparr>pixels := p\<rparr>) else (j, im))
     (filter (\<lambda>(j, im). \<not> is_compositing im) (enumerate n xs))"
proof (induction xs arbitrary: n k)
  case Nil
  then show ?case by simp
next
  case (Cons x xs)
  show ?case
  proof (cases k)
    case 0
    have "map (\<lambda>(j, im). if j = n then (j, im\<lparr>pixels := p\<rparr>) else (j, im))
            (filter (\<lambda>(j, im). \<not> is_compositing im) (enumerate (Suc n) xs)) =
          filter (\<lambda>(j, im). \<not> is_compositing im) (enumerate (Suc n) xs)"
      by (rule map_idI) (auto simp: in_set_enumerate_eq)
    with 0 show ?thesis by simp
  next
    case (Suc k')
    with Cons.IH [of "Suc n" k'] show ?thesis by simp
  qed
qed

lemma user_images_store_pixels:
  "user_images (store_pixels k p xs) =
   map (\<lambda>(j, im). if j = k then (j, im\<lparr>pixels := p\<rparr>) else (j, im)) (user_images xs)"
  using filter_enumerate_store [of 0 xs k p] by (simp add: user_images_def store_pixels_def)

lemma user_images_ensure_viewer [simp]:
  "user_images (snd (ensure_viewer imgs)) = user_images imgs"
  by (simp add: user_images_def ensure_viewer_def enumerate_append_eq viewer_image_new_def
                is_compositing_def split: option.split)

lemma user_images_nth:
  "(j, im) \<in> set (user_images xs) \<Longrightarrow> j < length xs \<and> im = xs ! j"
  by (auto simp: user_images_def in_set_enumerate_eq)

lemma user_images_compositing:
  "is_compositing (xs ! k) \<Longrightarrow>
   map (\<lambda>(j, im). if j = k then f j im else (j, im)) (user_images xs) = user_images xs"
  by (rule map_idI) (auto simp: user_images_def in_set_enumerate_eq)

text \<open>The images after a successful run, seen by the user: the edited image is
  denoised, the compositor's viewer image is not visible.\<close>

lemma user_images_denoised:
  assumes "i < length imgs"
  shows "user_images (denoised_images oidn pf hdr i imgs) =
         map (\<lambda>(j, im). if j = i then (j, im\<lparr>pixels := oidn pf hdr (pixels im)\<rparr>) else (j, im)) (user_images imgs)"
proof -
  let ?vi = "fst (ensure_viewer imgs)" and ?imgs = "snd (ensure_viewer imgs)"
  let ?out = "oidn pf hdr (pixels (imgs ! i))"
  have v: "user_images (store_pixels ?vi ?out ?imgs) = user_images imgs"
    using user_images_compositing [OF ensure_viewer_is_compositing, where f = "\<lambda>j im. (j, im\<lparr>pixels := ?out\<rparr>)"]
    by (simp add: user_images_store_pixels)
  have "map (\<lambda>(j, im). if j = i then (j, im\<lparr>pixels := ?out\<rparr>) else (j, im)) (user_images imgs) =
        map (\<lambda>(j, im). if j = i then (j, im\<lparr>pixels := oidn pf hdr (pixels im)\<rparr>) else (j, im)) (user_images imgs)"
    by (rule map_cong) (auto dest: user_images_nth)
  with v show ?thesis
    by (simp add: denoised_images_def Let_def user_images_store_pixels)
qed

section \<open>The user's view of the steps of execute\<close>

lemma user_scenes_empty_iff:
  "filter (\<lambda>s. sc_name s \<noteq> SCENE_NAME) (scenes st) = [] \<longleftrightarrow> \<not> list_ex (\<lambda>s. sc_name s \<noteq> SCENE_NAME) (scenes st)"
  by (simp add: filter_empty_conv list_ex_iff)

section \<open>Refinement\<close>

lemma execute_implements_spec:
  assumes wf: "bdata_wf st" and src: "pred_option (\<lambda>i. i < length (images st)) (edit_image ctx)"
    and ok: "denoiser_ok oidn"
  shows "map_res user_view (execute oidn self ctx st) = denoise_spec oidn self ctx (user_view st)"
proof (cases "op_image self = ''''")
  case False
  then show ?thesis
    using execute_string_source [OF False, of oidn ctx st]
    by (simp add: denoise_spec_def user_view_def)
next
  case img: True
  show ?thesis
  proof (cases "edit_image ctx")
    case None
    then show ?thesis
      using execute_no_source [OF img None, of oidn st] img
      by (simp add: denoise_spec_def user_view_def)
  next
    case (Some i)
    let ?pf = "op_prefilter self" and ?hdr = "op_use_hdr self"
    have i: "i < length (images st)"
      using src Some by simp
    have len: "length (oidn ?pf ?hdr (pixels (images st ! i))) = length (pixels (images st ! i))"
      using ok by (simp add: denoiser_ok_def)
    have u: "user_images (denoised_images oidn ?pf ?hdr i (images st)) =
             snd (denoise_in_place oidn ?pf ?hdr i (user_view st))"
      using user_images_denoised [OF i] by (simp add: denoise_in_place_def user_view_def)
    show ?thesis
    proof (cases "list_ex (\<lambda>s. sc_name s \<noteq> SCENE_NAME) (scenes st)")
      case True
      then show ?thesis
        using execute_success [of ctx i self st oidn, OF Some img i len True] img Some u
        by (simp add: denoise_spec_def user_view_def denoise_in_place_def user_scenes_empty_iff)
    next
      case False
      then show ?thesis
        using execute_remove_fails [of ctx i self st oidn, OF Some img i len wf False] img Some u
        by (simp add: denoise_spec_def user_view_def denoise_in_place_def user_scenes_empty_iff)
    qed
  qed
qed

text \<open>C17. \<open>execute\<close> implements the abstract operation: on a well-formed file,
  with the edited image (if any) present and a denoiser that keeps the number of
  values, every outcome of \<open>execute\<close>, its result or exception and the user's view
  of the data afterwards, is the one \<open>denoise_spec\<close> prescribes for the user's view
  before.\<close>

theorem execute_refines_spec:
  assumes "bdata_wf st" and "pred_option (\<lambda>i. i < length (images st)) (edit_image ctx)"
    and "denoiser_ok oidn"
  shows "map_res user_view (execute oidn self ctx st) = denoise_spec oidn self ctx (user_view st)"
  using assms by (rule execute_implements_spec)

section \<open>Witnesses\<close>

theorem execute_refines_spec_witness:
  "bdata_wf example_data \<and> pred_option (\<lambda>i. i < length (images example_data)) (edit_image example_ctx) \<and>
   denoiser_ok halve \<and>
   map_res user_view (execute halve op_defaults example_ctx example_data) =
     Ok FINISHED ([new_scene ''Scene''],
                  [(0, \<lparr>img_name = ''noise.png'', img_type = IMAGE, pixels = [1 / 2, 1 / 4]\<rparr>)])"
proof -
  have h: "bdata_wf example_data" "pred_option (\<lambda>i. i < length (images example_data)) (edit_image example_ctx)"
    "denoiser_ok halve"
    by (simp_all add: bdata_wf_def example_data_def new_scene_def example_ctx_def denoiser_ok_def halve_def)
  have "denoise_spec halve op_defaults example_ctx (user_view example_data) =
     Ok FINISHED ([new_scene ''Scene''],
                  [(0, \<lparr>img_name = ''noise.png'', img_type = IMAGE, pixels = [1 / 2, 1 / 4]\<rparr>)])"
    by (simp add: denoise_spec_def op_defaults_def example_ctx_def user_view_def user_images_def
                  example_data_def new_scene_def SCENE_NAME_def is_compositing_def denoise_in_place_def
                  halve_def)
  with execute_refines_spec [OF h] show ?thesis using h by simp
qed

end
