(* ===== verification/Host_UI.thy ===== *)
theory Host_UI
  imports Host_Data
begin

text \<open>
  Blender's class registry and menus as the add-on uses them (host code, modelled
  from Blender's behaviour). The registry is generic in the type \<open>'d\<close> of draw
  functions: the add-on's theory \<open>Menu\<close> supplies the draw functions and the function
  that runs one; the lemmas here hold for any choice.
  \<^item> \<open>ops\<close>: the bl_idnames of the registered operators;
    \<open>bpy.utils.register_class\<close> of a registered class raises ValueError,
    \<open>unregister_class\<close> of an unregistered one RuntimeError.
  \<^item> \<open>menus\<close>: the registered menu classes by name with their \<open>draw\<close> attribute
    (\<open>getattr(bpy.types, name, None)\<close> reads it, assigning \<open>cls.draw\<close> replaces it).
  \<^item> \<open>appends\<close>: the functions \<open>Menu.append\<close> added to a menu, drawn after its own
    \<open>draw\<close>, in order.
  \<^item> \<open>ops_call\<close>: \<open>bpy.ops.<idname>(...)\<close>: AttributeError for an unknown operator,
    RuntimeError when \<open>poll\<close> fails, and an exception inside \<open>execute\<close> surfaces as
    RuntimeError with the data as the exception left it.
\<close>

datatype layout_item = Separator | Menu_item string | Operator_item string | Label string

record 'd registry =
  ops :: "string list"
  menus :: "string \<Rightarrow> 'd option"
  appends :: "string \<Rightarrow> 'd list"

definition empty_registry :: "'d registry" where
  "empty_registry = \<lparr>ops = [], menus = (\<lambda>_. None), appends = (\<lambda>_. [])\<rparr>"

definition register_operator :: "string \<Rightarrow> (unit, 'd registry) pyfun" where
  "register_operator idn reg =
     (if idn \<in> set (ops reg) then Exc ValueError reg else Ok () (reg\<lparr>ops := ops reg @ [idn]\<rparr>))"

definition unregister_operator :: "string \<Rightarrow> (unit, 'd registry) pyfun" where
  "unregister_operator idn reg =
     (if idn \<notin> set (ops reg) then Exc RuntimeError reg else Ok () (reg\<lparr>ops := removeAll idn (ops reg)\<rparr>))"

definition register_menu :: "string \<Rightarrow> 'd \<Rightarrow> (unit, 'd registry) pyfun" where
  "register_menu name d reg =
     (if menus reg name \<noteq> None then Exc ValueError reg else Ok () (reg\<lparr>menus := (menus reg)(name := Some d)\<rparr>))"

definition get_type :: "string \<Rightarrow> ('d option, 'd registry) pyfun" where
  "get_type name reg = Ok (menus reg name) reg"

definition set_menu_draw :: "string \<Rightarrow> 'd \<Rightarrow> (unit, 'd registry) pyfun" where
  "set_menu_draw name d reg = Ok () (reg\<lparr>menus := (menus reg)(name := Some d)\<rparr>)"

definition menu_append :: "string \<Rightarrow> 'd \<Rightarrow> (unit, 'd registry) pyfun" where
  "menu_append name d reg = Ok () (reg\<lparr>appends := (appends reg)(name := appends reg name @ [d])\<rparr>)"

text \<open>The items a menu shows: its own draw (none for a built-in menu, whose items
  are not modelled) followed by the appended draw functions.\<close>

definition menu_layout ::
  "(bpy_context \<Rightarrow> 'd \<Rightarrow> layout_item list) \<Rightarrow> 'd registry \<Rightarrow> bpy_context \<Rightarrow> string \<Rightarrow> layout_item list" where
  "menu_layout run reg ctx name =
     (case menus reg name of None \<Rightarrow> [] | Some d \<Rightarrow> run ctx d) @ concat (map (run ctx) (appends reg name))"

definition ops_call ::
  "'d registry \<Rightarrow> string \<Rightarrow> (bpy_context \<Rightarrow> bool) \<Rightarrow> (bpy_context \<Rightarrow> ('r, 's) pyfun) \<Rightarrow>
   bpy_context \<Rightarrow> ('r, 's) pyfun" where
  "ops_call reg idn poll_fn exec ctx st =
     (if idn \<notin> set (ops reg) then Exc AttributeError st
      else if \<not> poll_fn ctx then Exc RuntimeError st
      else reraise_as RuntimeError (exec ctx st))"

section \<open>Lemmas\<close>

lemma menu_layout_set_draw:
  "menu_layout run (reg\<lparr>menus := (menus reg)(name := Some d)\<rparr>) ctx name =
   run ctx d @ concat (map (run ctx) (appends reg name))"
  by (simp add: menu_layout_def)

lemma menu_layout_append:
  "menu_layout run (reg\<lparr>appends := (appends reg)(name := appends reg name @ [d])\<rparr>) ctx name =
   menu_layout run reg ctx name @ run ctx d"
  by (simp add: menu_layout_def)

lemma menu_layout_ops [simp]: "menu_layout run (reg\<lparr>ops := x\<rparr>) ctx name = menu_layout run reg ctx name"
  by (simp add: menu_layout_def)

lemma ops_call_result:
  "ops_call reg idn poll_fn exec ctx st =
     (if idn \<in> set (ops reg) \<and> poll_fn ctx then
        reraise_as RuntimeError (exec ctx st)
      else if idn \<notin> set (ops reg) then Exc AttributeError st else Exc RuntimeError st)"
  by (simp add: ops_call_def)


lemma preserves_ops_call:
  assumes "\<And>c. preserves P (exec c)"
  shows "preserves P (ops_call reg idn poll_fn exec ctx)"
  unfolding preserves_def
proof (intro allI impI)
  fix s assume "P s"
  with assms [of ctx] show "P (res_state (ops_call reg idn poll_fn exec ctx s))"
    by (cases "exec ctx s") (auto simp: ops_call_def preserves_def dest: spec [of _ s])
qed

end
