(* ===== verification/Menu.thy ===== *)
theory Menu
  imports Host_UI
begin

text \<open>
  The add-on's draw functions (image_denoise_operator.py lines 26-47 and 151-156):
  \<open>IMAGE_MT_filters.draw\<close> shows the operator, \<open>menu_func\<close> (appended to the
  Image menu) shows a separator and the Filters submenu when an image is being
  edited, and \<open>new_draw_method\<close>, the closure that \<open>register\<close> installs on an
  existing Filters menu, draws the original items and then the operator.
  Python functions are values here: \<open>draw_fn\<close> names each draw function, with the
  closure's captured \<open>original_draw_method\<close> as an argument, and \<open>Foreign_draw\<close>
  stands for a draw function of another add-on. \<open>run_draw\<close> runs one.
\<close>

definition BL_IDNAME :: string where
  "BL_IDNAME = ''image.denoise''"

definition IMAGE_MT_filters_bl_label :: string where
  "IMAGE_MT_filters_bl_label = ''Filters''"

datatype draw_fn =
    IMAGE_MT_filters_draw
  | Menu_func
  | New_draw_method draw_fn
  | Foreign_draw "layout_item list"

definition filters_draw :: "bpy_context \<Rightarrow> layout_item list" where
  "filters_draw ctx = [Operator_item BL_IDNAME]"

definition menu_func :: "bpy_context \<Rightarrow> layout_item list" where
  "menu_func ctx = (if edit_image ctx \<noteq> None then [Separator, Menu_item ''IMAGE_MT_filters''] else [])"

definition new_draw_method :: "layout_item list \<Rightarrow> layout_item list" where
  "new_draw_method original_items = original_items @ [Operator_item BL_IDNAME]"

fun run_draw :: "bpy_context \<Rightarrow> draw_fn \<Rightarrow> layout_item list" where
  "run_draw ctx IMAGE_MT_filters_draw = filters_draw ctx"
| "run_draw ctx Menu_func = menu_func ctx"
| "run_draw ctx (New_draw_method original_draw_method) = new_draw_method (run_draw ctx original_draw_method)"
| "run_draw ctx (Foreign_draw items) = items"

text \<open>How many entries of the operator a layout shows.\<close>

definition op_entries :: "layout_item list \<Rightarrow> nat" where
  "op_entries items = count_list items (Operator_item BL_IDNAME)"

section \<open>Lemmas\<close>

lemma op_entries_append [simp]: "op_entries (xs @ ys) = op_entries xs + op_entries ys"
  by (simp add: op_entries_def)

lemma op_entries_wrapped:
  "op_entries (run_draw ctx ((New_draw_method ^^ n) d)) = op_entries (run_draw ctx d) + n"
  by (induction n) (simp_all add: new_draw_method_def op_entries_def)

lemma op_entries_filters_draw [simp]: "op_entries (filters_draw ctx) = 1"
  by (simp add: filters_draw_def op_entries_def)

lemma op_entries_new_draw [simp]: "op_entries (new_draw_method xs) = Suc (op_entries xs)"
  by (simp add: new_draw_method_def op_entries_def)

end
