(* ===== verification/Register.thy ===== *)
theory Register
  imports Menu Operator
begin

text \<open>
  \<open>register\<close> and \<open>unregister\<close> of image_denoise_operator.py (lines 137-163), over the
  registry of \<open>Host_UI\<close> with the add-on's draw functions of \<open>Menu\<close>.
  \<open>register\<close> registers the operator class, then looks up \<open>IMAGE_MT_filters\<close>: when
  it is missing it registers the add-on's Filters menu and appends \<open>menu_func\<close> to
  the Image menu; when another add-on (or an earlier enable of this one) registered
  it, it replaces its draw by \<open>new_draw_method\<close> wrapped around the old draw.
  \<open>unregister\<close> only unregisters the operator.
  The add-on manager enables and disables the add-on in turn; \<open>lifecycle\<close> runs such
  a sequence, keeping the registry as each call leaves it (the manager reports an
  exception and goes on).
\<close>

definition register :: "(unit, draw_fn registry) pyfun" where
  "register =
     bindP (register_operator IMAGE_OT_denoise_bl_idname) (\<lambda>_.
     bindP (get_type ''IMAGE_MT_filters'') (\<lambda>img_filters_menu.
       (case img_filters_menu of
          None \<Rightarrow>
            bindP (register_menu ''IMAGE_MT_filters'' IMAGE_MT_filters_draw) (\<lambda>_.
            menu_append ''IMAGE_MT_image'' Menu_func)
        | Some original_draw_method \<Rightarrow>
            set_menu_draw ''IMAGE_MT_filters'' (New_draw_method original_draw_method))))"

definition unregister :: "(unit, draw_fn registry) pyfun" where
  "unregister = unregister_operator IMAGE_OT_denoise_bl_idname"

text \<open>The script's main block (lines 166-167): run as a script from Blender's text
  editor, the file registers the add-on.\<close>

definition main_block :: "(unit, draw_fn registry) pyfun" where
  "main_block = register"

abbreviation filters_layout :: "draw_fn registry \<Rightarrow> bpy_context \<Rightarrow> layout_item list" where
  "filters_layout reg ctx \<equiv> menu_layout run_draw reg ctx ''IMAGE_MT_filters''"

abbreviation image_menu_layout :: "draw_fn registry \<Rightarrow> bpy_context \<Rightarrow> layout_item list" where
  "image_menu_layout reg ctx \<equiv> menu_layout run_draw reg ctx ''IMAGE_MT_image''"

datatype addon_event = Enable | Disable

fun addon_step :: "addon_event \<Rightarrow> draw_fn registry \<Rightarrow> draw_fn registry" where
  "addon_step Enable reg = res_state (register reg)"
| "addon_step Disable reg = res_state (unregister reg)"

fun lifecycle :: "addon_event list \<Rightarrow> draw_fn registry \<Rightarrow> draw_fn registry" where
  "lifecycle [] reg = reg"
| "lifecycle (e # es) reg = lifecycle es (addon_step e reg)"

definition cycles :: "nat \<Rightarrow> addon_event list" where
  "cycles n = concat (replicate n [Enable, Disable])"

section \<open>Lemmas on register and unregister\<close>

lemma register_fresh_result:
  assumes "IMAGE_OT_denoise_bl_idname \<notin> set (ops r)" and "menus r ''IMAGE_MT_filters'' = None"
  shows "register r = Ok ()
    (r\<lparr>ops := ops r @ [IMAGE_OT_denoise_bl_idname],
       menus := (menus r)(''IMAGE_MT_filters'' := Some IMAGE_MT_filters_draw),
       appends := (appends r)(''IMAGE_MT_image'' := appends r ''IMAGE_MT_image'' @ [Menu_func])\<rparr>)"
  using assms
  by (simp add: register_def bindP_def register_operator_def get_type_def register_menu_def
                menu_append_def)

lemma register_wrap_result:
  assumes "IMAGE_OT_denoise_bl_idname \<notin> set (ops r)" and "menus r ''IMAGE_MT_filters'' = Some d"
  shows "register r = Ok ()
    (r\<lparr>ops := ops r @ [IMAGE_OT_denoise_bl_idname],
       menus := (menus r)(''IMAGE_MT_filters'' := Some (New_draw_method d))\<rparr>)"
  using assms
  by (simp add: register_def bindP_def register_operator_def get_type_def set_menu_draw_def)

lemma register_again:
  "IMAGE_OT_denoise_bl_idname \<in> set (ops r) \<Longrightarrow> register r = Exc ValueError r"
  by (simp add: register_def bindP_def register_operator_def)

lemma unregister_result:
  "unregister r =
     (if IMAGE_OT_denoise_bl_idname \<in> set (ops r)
      then Ok () (r\<lparr>ops := removeAll IMAGE_OT_denoise_bl_idname (ops r)\<rparr>)
      else Exc RuntimeError r)"
  by (simp add: unregister_def unregister_operator_def)

lemma cycles_Suc: "cycles (Suc n) = Enable # Disable # cycles n"
  by (simp add: cycles_def)

text \<open>One enable/disable cycle on a registry where the Filters menu exists wraps
  its draw once more and leaves everything else as it was.\<close>

lemma lifecycle_cycles_wrap:
  assumes "IMAGE_OT_denoise_bl_idname \<notin> set (ops r)" and "menus r ''IMAGE_MT_filters'' = Some d"
  shows "lifecycle (cycles n @ es) r =
     lifecycle es (r\<lparr>menus := (menus r)(''IMAGE_MT_filters'' := Some ((New_draw_method ^^ n) d))\<rparr>)"
  using assms
proof (induction n arbitrary: r d)
  case 0
  then show ?case by (simp add: cycles_def fun_upd_idem)
next
  case (Suc n)
  let ?r1 = "r\<lparr>menus := (menus r)(''IMAGE_MT_filters'' := Some (New_draw_method d))\<rparr>"
  have step: "addon_step Disable (addon_step Enable r) = ?r1"
    using Suc.prems by (simp add: register_wrap_result unregister_result removeAll_id)
  have "lifecycle (cycles (Suc n) @ es) r = lifecycle (cycles n @ es) ?r1"
    using step by (simp add: cycles_Suc)
  also have "\<dots> = lifecycle es (?r1\<lparr>menus := (menus ?r1)(''IMAGE_MT_filters'' :=
                 Some ((New_draw_method ^^ n) (New_draw_method d)))\<rparr>)"
    using Suc.prems by (intro Suc.IH) simp_all
  also have "?r1\<lparr>menus := (menus ?r1)(''IMAGE_MT_filters'' :=
                 Some ((New_draw_method ^^ n) (New_draw_method d)))\<rparr> =
             r\<lparr>menus := (menus r)(''IMAGE_MT_filters'' := Some ((New_draw_method ^^ Suc n) d))\<rparr>"
    by (simp add: funpow_swap1)
  finally show ?case .
qed

section \<open>Properties of registration\<close>

text \<open>C7. Enabling the add-on on a Blender without a Filters menu registers the
  operator, registers a Filters menu showing exactly one entry, and that entry names
  the operator just registered; the Image menu gains, after its former items, a
  separator and the Filters submenu when an image is being edited.\<close>

theorem register_fresh:
  assumes "IMAGE_OT_denoise_bl_idname \<notin> set (ops r)" and "menus r ''IMAGE_MT_filters'' = None"
    and "appends r ''IMAGE_MT_filters'' = []"
  shows "\<exists>r'. register r = Ok () r' \<and> BL_IDNAME \<in> set (ops r') \<and>
           filters_layout r' ctx = [Operator_item BL_IDNAME] \<and>
           image_menu_layout r' ctx = image_menu_layout r ctx @ menu_func ctx"
  using assms
  by (simp add: register_fresh_result menu_layout_def BL_IDNAME_def IMAGE_OT_denoise_bl_idname_def
                filters_draw_def)

text \<open>C8. Enabling the add-on when another add-on already registered a Filters
  menu keeps that menu's items and adds the operator's entry after them; the Image
  menu is not touched, so the Filters submenu is not listed twice.\<close>

theorem register_extends_filters:
  assumes "IMAGE_OT_denoise_bl_idname \<notin> set (ops r)" and "menus r ''IMAGE_MT_filters'' = Some d"
  shows "\<exists>r'. register r = Ok () r' \<and> BL_IDNAME \<in> set (ops r') \<and>
           filters_layout r' ctx =
             run_draw ctx d @ [Operator_item BL_IDNAME] @ concat (map (run_draw ctx) (appends r ''IMAGE_MT_filters'')) \<and>
           image_menu_layout r' ctx = image_menu_layout r ctx"
  using assms
  by (simp add: register_wrap_result menu_layout_def BL_IDNAME_def IMAGE_OT_denoise_bl_idname_def
                new_draw_method_def)

text \<open>C9. Registering twice in a row: the second call raises ValueError at its
  first statement, before any menu is touched, so the registry stays as the first
  call left it (no second menu entry).\<close>

theorem register_twice_error:
  assumes "IMAGE_OT_denoise_bl_idname \<notin> set (ops r)"
  shows "\<exists>r'. register r = Ok () r' \<and> register r' = Exc ValueError r'"
proof (cases "menus r ''IMAGE_MT_filters''")
  case None
  with assms show ?thesis by (simp add: register_fresh_result register_again)
next
  case (Some d)
  with assms show ?thesis by (simp add: register_wrap_result register_again)
qed

text \<open>C10. Disabling does not undo the menus: after enabling on a fresh Blender and
  disabling, the operator is gone but the Filters menu still shows its entry and the
  Image menu still lists the Filters submenu.\<close>

theorem unregister_leaves_menu_entries:
  assumes "IMAGE_OT_denoise_bl_idname \<notin> set (ops r)" and "menus r ''IMAGE_MT_filters'' = None"
    and "appends r ''IMAGE_MT_filters'' = []"
  shows "BL_IDNAME \<notin> set (ops (lifecycle [Enable, Disable] r)) \<and>
         filters_layout (lifecycle [Enable, Disable] r) ctx = [Operator_item BL_IDNAME] \<and>
         image_menu_layout (lifecycle [Enable, Disable] r) ctx = image_menu_layout r ctx @ menu_func ctx"
  using assms
  by (simp add: register_fresh_result unregister_result menu_layout_def BL_IDNAME_def
                IMAGE_OT_denoise_bl_idname_def filters_draw_def removeAll_id)

text \<open>C11. Each disable/enable cycle adds one more entry: after \<open>n\<close> enable/disable
  cycles and a final enable on a fresh Blender, the Filters menu shows the operator
  \<open>n + 1\<close> times, while the Image menu received \<open>menu_func\<close> once.\<close>

theorem reenable_duplicates_entry:
  assumes "IMAGE_OT_denoise_bl_idname \<notin> set (ops r)" and "menus r ''IMAGE_MT_filters'' = None"
    and "appends r ''IMAGE_MT_filters'' = []"
  shows "op_entries (filters_layout (lifecycle (cycles n @ [Enable]) r) ctx) = Suc n \<and>
         appends (lifecycle (cycles n @ [Enable]) r) ''IMAGE_MT_image'' = appends r ''IMAGE_MT_image'' @ [Menu_func]"
proof (cases n)
  case 0
  then show ?thesis
    using assms by (simp add: cycles_def register_fresh_result menu_layout_def filters_draw_def op_entries_def)
next
  case (Suc m)
  let ?r1 = "r\<lparr>menus := (menus r)(''IMAGE_MT_filters'' := Some IMAGE_MT_filters_draw),
               appends := (appends r)(''IMAGE_MT_image'' := appends r ''IMAGE_MT_image'' @ [Menu_func])\<rparr>"
  have first: "addon_step Disable (addon_step Enable r) = ?r1"
    using assms by (simp add: register_fresh_result unregister_result removeAll_id)
  have rest: "lifecycle (cycles m @ [Enable]) ?r1 =
      lifecycle [Enable] (?r1\<lparr>menus := (menus ?r1)(''IMAGE_MT_filters'' :=
         Some ((New_draw_method ^^ m) IMAGE_MT_filters_draw))\<rparr>)"
    using assms by (intro lifecycle_cycles_wrap) simp_all
  show ?thesis
    using Suc first rest assms
    by (simp add: cycles_Suc register_wrap_result menu_layout_def op_entries_wrapped
                  funpow_Suc_right [symmetric])
qed

text \<open>C12. Unregistering touches only the operator: the menus and the appended
  draw functions stay as they are, the operator is no longer registered afterwards,
  and the call raises RuntimeError exactly when the operator was not registered.\<close>

theorem unregister_only_operator:
  "menus (res_state (unregister r)) = menus r \<and> appends (res_state (unregister r)) = appends r \<and>
   IMAGE_OT_denoise_bl_idname \<notin> set (ops (res_state (unregister r))) \<and>
   (unregister r = Exc RuntimeError r \<longleftrightarrow> IMAGE_OT_denoise_bl_idname \<notin> set (ops r))"
  by (simp add: unregister_result)

section \<open>Witnesses\<close>

theorem register_fresh_witness:
  "IMAGE_OT_denoise_bl_idname \<notin> set (ops empty_registry) \<and>
   menus (empty_registry :: draw_fn registry) ''IMAGE_MT_filters'' = None \<and>
   appends (empty_registry :: draw_fn registry) ''IMAGE_MT_filters'' = [] \<and>
   (\<exists>r'. register empty_registry = Ok () r' \<and>
      filters_layout r' example_ctx = [Operator_item ''image.denoise''] \<and>
      image_menu_layout r' example_ctx = [Separator, Menu_item ''IMAGE_MT_filters''])"
  using register_fresh [of empty_registry example_ctx]
  by (simp add: empty_registry_def menu_layout_def BL_IDNAME_def menu_func_def example_ctx_def) blast

theorem register_extends_filters_witness:
  "IMAGE_OT_denoise_bl_idname \<notin> set (ops (empty_registry\<lparr>menus := (\<lambda>_. None)(''IMAGE_MT_filters'' :=
      Some (Foreign_draw [Operator_item ''image.sharpen'']))\<rparr>)) \<and>
   (\<exists>r'. register (empty_registry\<lparr>menus := (\<lambda>_. None)(''IMAGE_MT_filters'' :=
            Some (Foreign_draw [Operator_item ''image.sharpen'']))\<rparr>) = Ok () r' \<and>
      filters_layout r' example_ctx = [Operator_item ''image.sharpen'', Operator_item ''image.denoise''])"
  using register_extends_filters [of "empty_registry\<lparr>menus := (\<lambda>_. None)(''IMAGE_MT_filters'' :=
      Some (Foreign_draw [Operator_item ''image.sharpen'']))\<rparr>"
      "Foreign_draw [Operator_item ''image.sharpen'']" example_ctx]
  by (simp add: empty_registry_def IMAGE_OT_denoise_bl_idname_def BL_IDNAME_def) blast

theorem register_twice_error_witness:
  "IMAGE_OT_denoise_bl_idname \<notin> set (ops (empty_registry :: draw_fn registry)) \<and>
   (\<exists>r'. register empty_registry = Ok () r' \<and> register r' = Exc ValueError r')"
  using register_twice_error [of empty_registry] by (simp add: empty_registry_def)

theorem unregister_leaves_menu_entries_witness:
  "IMAGE_OT_denoise_bl_idname \<notin> set (ops empty_registry) \<and>
   menus (empty_registry :: draw_fn registry) ''IMAGE_MT_filters'' = None \<and>
   appends (empty_registry :: draw_fn registry) ''IMAGE_MT_filters'' = [] \<and>
   filters_layout (lifecycle [Enable, Disable] empty_registry) example_ctx = [Operator_item ''image.denoise''] \<and>
   image_menu_layout (lifecycle [Enable, Disable] empty_registry) example_ctx =
     [Separator, Menu_item ''IMAGE_MT_filters'']"
  using unregister_leaves_menu_entries [of empty_registry example_ctx]
  by (simp add: empty_registry_def menu_layout_def BL_IDNAME_def menu_func_def example_ctx_def)

theorem reenable_duplicates_entry_witness:
  "IMAGE_OT_denoise_bl_idname \<notin> set (ops empty_registry) \<and>
   menus (empty_registry :: draw_fn registry) ''IMAGE_MT_filters'' = None \<and>
   appends (empty_registry :: draw_fn registry) ''IMAGE_MT_filters'' = [] \<and>
   op_entries (filters_layout (lifecycle (cycles 2 @ [Enable]) empty_registry) example_ctx) = 3"
  using reenable_duplicates_entry [of empty_registry 2 example_ctx]
  by (simp add: empty_registry_def)

end
