(* ===== verification/Lifecycle.thy ===== *)
theory Lifecycle
  imports Register
begin

text \<open>
  The add-on manager's view of the add-on as a state machine: from a starting
  registry, each enable calls \<open>register\<close> and each disable \<open>unregister\<close>, the
  registry kept as the call leaves it, also when it raises. \<open>addon_reach r0\<close> is
  the set of registries reachable from \<open>r0\<close>, an inductive predicate whose rules are
  the two events; every registry \<open>lifecycle\<close> produces from an event list is
  reachable (\<open>lifecycle_reach\<close>). On a Blender where the add-on was never enabled, every reachable
  registry has one of three shapes (\<open>installed\<close>), proved by rule induction; from
  that follow that an enable always leads to a callable operator with a menu entry,
  and that the Image menu receives \<open>menu_func\<close> at most once.
\<close>

inductive addon_reach :: "draw_fn registry \<Rightarrow> draw_fn registry \<Rightarrow> bool" for r0 where
  start: "addon_reach r0 r0"
| enable: "addon_reach r0 r \<Longrightarrow> addon_reach r0 (res_state (register r))"
| disable: "addon_reach r0 r \<Longrightarrow> addon_reach r0 (res_state (unregister r))"

text \<open>A Blender on which the add-on was never enabled.\<close>

definition fresh_registry :: "draw_fn registry \<Rightarrow> bool" where
  "fresh_registry r \<longleftrightarrow>
     IMAGE_OT_denoise_bl_idname \<notin> set (ops r) \<and> menus r ''IMAGE_MT_filters'' = None \<and>
     Menu_func \<notin> set (appends r ''IMAGE_MT_image'')"

text \<open>The registry after the add-on was enabled \<open>k + 1\<close> times on \<open>r0\<close>, with the
  operator class not registered.\<close>

definition installed :: "draw_fn registry \<Rightarrow> nat \<Rightarrow> draw_fn registry" where
  "installed r0 k =
     r0\<lparr>menus := (menus r0)(''IMAGE_MT_filters'' := Some ((New_draw_method ^^ k) IMAGE_MT_filters_draw)),
        appends := (appends r0)(''IMAGE_MT_image'' := appends r0 ''IMAGE_MT_image'' @ [Menu_func])\<rparr>"

code_pred addon_reach .

section \<open>Lemmas\<close>

lemma addon_step_reach: "addon_reach r0 r \<Longrightarrow> addon_reach r0 (addon_step e r)"
  by (cases e) (simp_all add: addon_reach.enable addon_reach.disable)

lemma lifecycle_reach: "addon_reach r0 r \<Longrightarrow> addon_reach r0 (lifecycle es r)"
  by (induction es arbitrary: r) (simp_all add: addon_step_reach)

lemma lifecycle_snoc: "lifecycle (es @ [e]) r = addon_step e (lifecycle es r)"
  by (induction es arbitrary: r) simp_all

lemma ops_installed [simp]: "ops (installed r0 k) = ops r0"
  by (simp add: installed_def)

lemma menus_installed [simp]:
  "menus (installed r0 k) ''IMAGE_MT_filters'' = Some ((New_draw_method ^^ k) IMAGE_MT_filters_draw)"
  by (simp add: installed_def)

lemma register_installed:
  "IMAGE_OT_denoise_bl_idname \<notin> set (ops r0) \<Longrightarrow>
   register (installed r0 k) = Ok () ((installed r0 (Suc k))\<lparr>ops := ops r0 @ [IMAGE_OT_denoise_bl_idname]\<rparr>)"
  by (simp add: register_wrap_result) (simp add: installed_def)

lemma register_start:
  "fresh_registry r0 \<Longrightarrow>
   register r0 = Ok () ((installed r0 0)\<lparr>ops := ops r0 @ [IMAGE_OT_denoise_bl_idname]\<rparr>)"
  by (simp add: fresh_registry_def register_fresh_result) (simp add: installed_def)

text \<open>The shapes of the reachable registries.\<close>

lemma addon_reach_shape:
  assumes "addon_reach r0 r" and "fresh_registry r0"
  shows "r = r0 \<or> (\<exists>k. r = installed r0 k \<or> r = (installed r0 k)\<lparr>ops := ops r0 @ [IMAGE_OT_denoise_bl_idname]\<rparr>)"
  using assms(1)
proof (induction rule: addon_reach.induct)
  case start
  then show ?case by simp
next
  case (enable r)
  have notin: "IMAGE_OT_denoise_bl_idname \<notin> set (ops r0)"
    using assms(2) by (simp add: fresh_registry_def)
  from enable.IH show ?case
  proof (elim disjE exE)
    assume "r = r0"
    then show ?thesis using assms(2) by (auto simp: register_start)
  next
    fix k assume "r = installed r0 k"
    then show ?thesis using notin by (auto simp: register_installed)
  next
    fix k assume "r = (installed r0 k)\<lparr>ops := ops r0 @ [IMAGE_OT_denoise_bl_idname]\<rparr>"
    then show ?thesis by (auto simp: register_again)
  qed
next
  case (disable r)
  have notin: "IMAGE_OT_denoise_bl_idname \<notin> set (ops r0)"
    using assms(2) by (simp add: fresh_registry_def)
  from disable.IH show ?case
  proof (elim disjE exE)
    assume "r = r0"
    then show ?thesis using notin by (simp add: unregister_result)
  next
    fix k assume "r = installed r0 k"
    then show ?thesis using notin by (auto simp: unregister_result)
  next
    fix k assume r: "r = (installed r0 k)\<lparr>ops := ops r0 @ [IMAGE_OT_denoise_bl_idname]\<rparr>"
    have "(installed r0 k)\<lparr>ops := removeAll IMAGE_OT_denoise_bl_idname (ops r0 @ [IMAGE_OT_denoise_bl_idname])\<rparr> =
          installed r0 k"
      using notin by (simp add: removeAll_id installed_def)
    then show ?thesis using r by (auto simp: unregister_result)
  qed
qed

section \<open>Properties of the add-on life cycle\<close>

text \<open>C18. Enabling always makes the add-on usable again: from every registry
  reachable by enables and disables on a Blender where the add-on was never enabled,
  one more enable leads to a reachable registry where the operator is registered
  and the Filters menu shows at least one entry for it.\<close>

theorem enable_makes_callable:
  assumes "addon_reach r0 r" and "fresh_registry r0"
  shows "addon_reach r0 (addon_step Enable r) \<and>
         IMAGE_OT_denoise_bl_idname \<in> set (ops (addon_step Enable r)) \<and>
         1 \<le> op_entries (filters_layout (addon_step Enable r) ctx)"
proof -
  have notin: "IMAGE_OT_denoise_bl_idname \<notin> set (ops r0)"
    using assms(2) by (simp add: fresh_registry_def)
  have reach: "addon_reach r0 (addon_step Enable r)"
    using assms(1) by (rule addon_step_reach)
  from addon_reach_shape [OF assms] show ?thesis
  proof (elim disjE exE)
    assume "r = r0"
    then show ?thesis
      using reach assms(2) by (simp add: register_start menu_layout_def op_entries_wrapped)
  next
    fix k assume "r = installed r0 k"
    then show ?thesis
      using reach notin by (simp add: register_installed menu_layout_def op_entries_wrapped)
  next
    fix k assume "r = (installed r0 k)\<lparr>ops := ops r0 @ [IMAGE_OT_denoise_bl_idname]\<rparr>"
    then show ?thesis
      using reach by (simp add: register_again menu_layout_def op_entries_wrapped)
  qed
qed

text \<open>C19. However often the add-on is enabled and disabled, \<open>menu_func\<close> is
  appended to the Image menu at most once, so the Image menu lists the Filters
  submenu at most once on its behalf (unlike the Filters menu's own entries, C11).\<close>

theorem image_menu_appended_once:
  assumes "addon_reach r0 r" and "fresh_registry r0"
  shows "count_list (appends r ''IMAGE_MT_image'') Menu_func \<le> 1"
proof -
  have none: "count_list (appends r0 ''IMAGE_MT_image'') Menu_func = 0"
    using assms(2) by (simp add: fresh_registry_def count_list_0_iff)
  from addon_reach_shape [OF assms] show ?thesis
    by (elim disjE exE) (simp_all add: none installed_def)
qed


section \<open>Witnesses\<close>

lemma fresh_empty_registry: "fresh_registry empty_registry"
  by (simp add: fresh_registry_def empty_registry_def)

theorem enable_makes_callable_witness:
  "addon_reach empty_registry (lifecycle [Enable, Disable] empty_registry) \<and> fresh_registry empty_registry \<and>
   IMAGE_OT_denoise_bl_idname \<in> set (ops (addon_step Enable (lifecycle [Enable, Disable] empty_registry))) \<and>
   1 \<le> op_entries (filters_layout (addon_step Enable (lifecycle [Enable, Disable] empty_registry)) example_ctx)"
  using enable_makes_callable [OF lifecycle_reach [OF addon_reach.start] fresh_empty_registry,
      of "[Enable, Disable]" example_ctx]
    lifecycle_reach [OF addon_reach.start, of empty_registry "[Enable, Disable]"] fresh_empty_registry
  by simp

theorem image_menu_appended_once_witness:
  "addon_reach empty_registry (lifecycle (cycles 3) empty_registry) \<and> fresh_registry empty_registry \<and>
   count_list (appends (lifecycle (cycles 3) empty_registry) ''IMAGE_MT_image'') Menu_func \<le> 1"
  using image_menu_appended_once [OF lifecycle_reach [OF addon_reach.start] fresh_empty_registry,
      of "cycles 3"]
    lifecycle_reach [OF addon_reach.start, of empty_registry "cycles 3"] fresh_empty_registry
  by simp

end
