(* ===== verification/Session.thy ===== *)
theory Session
  imports Lifecycle
begin

text \<open>
  A Blender session with the add-on: the class registry and the file's data
  together, changed by the user's actions in any order. Enabling and disabling run
  \<open>register\<close> and \<open>unregister\<close>. Choosing Image \<open>\<rightarrow>\<close> Filters \<open>\<rightarrow>\<close> Denoise is possible
  only while both menu entries are shown; it calls the operator through
  \<open>bpy.ops\<close> with \<open>invoke\<close>, whose dialog the user confirms or cancels (the dialog
  starts from the default property values). A script can call
  \<open>bpy.ops.image.denoise(...)\<close> with any properties, which runs \<open>execute\<close>. As in a
  system model over a list of operations, \<open>session_run\<close> performs a sequence of
  actions, each on the state the previous one left, errors included (Blender
  reports the exception and the session goes on).
\<close>

record session =
  reg :: "draw_fn registry"
  data :: bdata

datatype user_action =
    Enable_addon
  | Disable_addon
  | Menu_denoise bpy_context dialog_outcome
  | Script_denoise op_props bpy_context

text \<open>The Denoise entry can be chosen when the Image menu lists the Filters
  submenu and the Filters menu shows the entry.\<close>

definition menu_entry_shown :: "draw_fn registry \<Rightarrow> bpy_context \<Rightarrow> bool" where
  "menu_entry_shown r ctx \<longleftrightarrow>
     Menu_item ''IMAGE_MT_filters'' \<in> set (image_menu_layout r ctx) \<and>
     Operator_item BL_IDNAME \<in> set (filters_layout r ctx)"

fun session_step :: "denoiser \<Rightarrow> user_action \<Rightarrow> session \<Rightarrow> session" where
  "session_step oidn Enable_addon s = s\<lparr>reg := addon_step Enable (reg s)\<rparr>"
| "session_step oidn Disable_addon s = s\<lparr>reg := addon_step Disable (reg s)\<rparr>"
| "session_step oidn (Menu_denoise ctx d) s =
     (if menu_entry_shown (reg s) ctx
      then s\<lparr>data := res_state (ops_call (reg s) BL_IDNAME poll (\<lambda>c. invoke_run oidn op_defaults c d) ctx (data s))\<rparr>
      else s)"
| "session_step oidn (Script_denoise self ctx) s =
     s\<lparr>data := res_state (ops_call (reg s) BL_IDNAME poll (execute oidn self) ctx (data s))\<rparr>"

fun session_run :: "denoiser \<Rightarrow> user_action list \<Rightarrow> session \<Rightarrow> session" where
  "session_run oidn [] s = s"
| "session_run oidn (a # as) s = session_run oidn as (session_step oidn a s)"

section \<open>Lemmas\<close>

lemma session_run_append:
  "session_run oidn (as @ bs) s = session_run oidn bs (session_run oidn as s)"
  by (induction as arbitrary: s) simp_all


lemma menu_entry_shown_installed:
  assumes "edit_image ctx \<noteq> None"
  shows "menu_entry_shown ((installed r0 k)\<lparr>ops := x\<rparr>) ctx \<and> menu_entry_shown (installed r0 k) ctx"
proof -
  have "0 < op_entries (run_draw ctx ((New_draw_method ^^ k) IMAGE_MT_filters_draw))"
    by (simp add: op_entries_wrapped)
  then have "Operator_item BL_IDNAME \<in> set (run_draw ctx ((New_draw_method ^^ k) IMAGE_MT_filters_draw))"
    by (metis op_entries_def count_list_0_iff less_nat_zero_code)
  with assms show ?thesis
    by (auto simp: menu_entry_shown_def menu_layout_def installed_def menu_func_def)
qed

text \<open>Choosing the menu entry and confirming the dialog runs \<open>execute\<close> with the
  dialog's settings; its exceptions surface as RuntimeError.\<close>

lemma menu_denoise_step:
  assumes "IMAGE_OT_denoise_bl_idname \<in> set (ops (reg s))" and "menu_entry_shown (reg s) ctx"
    and "edit_image ctx \<noteq> None"
  shows "session_step oidn (Menu_denoise ctx (Dialog_OK pf hdr)) s =
    s\<lparr>data := res_state (execute oidn (op_defaults\<lparr>op_prefilter := pf, op_use_hdr := hdr\<rparr>) ctx (data s))\<rparr>"
  using assms by (simp add: ops_call_result poll_def invoke_run_def invoke_def bindP_return_left
                            BL_IDNAME_def IMAGE_OT_denoise_bl_idname_def)

section \<open>Properties of sessions\<close>


text \<open>C25. An interleaving of the components: on a Blender where the add-on was
  never enabled, the user enables it, denoises the edited image from the menu,
  disables and re-enables the add-on, and denoises again from the menu. Both runs
  take effect, so the image holds the denoiser applied twice, and the Filters menu
  now shows the Denoise entry twice.\<close>

theorem session_reenable_denoise:
  assumes fresh: "fresh_registry r0" and nf: "appends r0 ''IMAGE_MT_filters'' = []"
    and ctx: "edit_image ctx = Some i" and i: "i < length (images st)"
    and ok: "\<forall>p. length (oidn pf hdr p) = length p"
    and other: "list_ex (\<lambda>s. sc_name s \<noteq> SCENE_NAME) (scenes st)"
  shows "pixels (images (data (session_run oidn
            [Enable_addon, Menu_denoise ctx (Dialog_OK pf hdr), Disable_addon,
             Enable_addon, Menu_denoise ctx (Dialog_OK pf hdr)] \<lparr>reg = r0, data = st\<rparr>)) ! i) =
           oidn pf hdr (oidn pf hdr (pixels (images st ! i))) \<and>
         op_entries (filters_layout (reg (session_run oidn
            [Enable_addon, Menu_denoise ctx (Dialog_OK pf hdr), Disable_addon,
             Enable_addon, Menu_denoise ctx (Dialog_OK pf hdr)] \<lparr>reg = r0, data = st\<rparr>)) ctx) = 2"
proof -
  let ?self = "op_defaults\<lparr>op_prefilter := pf, op_use_hdr := hdr\<rparr>"
  let ?op = "IMAGE_OT_denoise_bl_idname"
  have notin: "?op \<notin> set (ops r0)"
    using fresh by (simp add: fresh_registry_def)
  have ne: "edit_image ctx \<noteq> None"
    using ctx by simp
  have r1: "addon_step Enable r0 = (installed r0 0)\<lparr>ops := ops r0 @ [?op]\<rparr>"
    using fresh by (simp add: register_start)
  have r2: "addon_step Disable ((installed r0 0)\<lparr>ops := ops r0 @ [?op]\<rparr>) = installed r0 0"
    using notin by (simp add: unregister_result removeAll_id installed_def)
  have r3: "addon_step Enable (installed r0 0) = (installed r0 1)\<lparr>ops := ops r0 @ [?op]\<rparr>"
    using notin by (simp add: register_installed)
  obtain st1 where e1: "execute oidn ?self ctx st = Ok FINISHED st1"
    and e2: "execute oidn ?self ctx st1 = Ok FINISHED \<lparr>scenes = filter (\<lambda>s. sc_name s \<noteq> SCENE_NAME) (scenes st),
               images = denoised_images oidn pf hdr i (denoised_images oidn pf hdr i (images st))\<rparr>"
    using execute_success_twice [of ctx i ?self st oidn] ctx i ok other by (auto simp: op_defaults_def)
  have shown: "menu_entry_shown ((installed r0 k)\<lparr>ops := ops r0 @ [?op]\<rparr>) ctx" for k
    using menu_entry_shown_installed [OF ne] by blast
  have "session_run oidn [Enable_addon, Menu_denoise ctx (Dialog_OK pf hdr), Disable_addon,
             Enable_addon, Menu_denoise ctx (Dialog_OK pf hdr)] \<lparr>reg = r0, data = st\<rparr> =
        \<lparr>reg = (installed r0 1)\<lparr>ops := ops r0 @ [?op]\<rparr>,
         data = \<lparr>scenes = filter (\<lambda>s. sc_name s \<noteq> SCENE_NAME) (scenes st),
               images = denoised_images oidn pf hdr i (denoised_images oidn pf hdr i (images st))\<rparr>\<rparr>"
    using r1 r2 r3 e1 e2 shown ne
    by (simp add: menu_denoise_step del: addon_step.simps session_step.simps(3))
  moreover have "op_entries (filters_layout ((installed r0 1)\<lparr>ops := ops r0 @ [?op]\<rparr>) ctx) = 2"
    using nf by (simp add: menu_layout_def installed_def op_entries_wrapped)
  ultimately show ?thesis
    using pixels_denoised_twice [OF i, of oidn pf hdr] by simp
qed

text \<open>C27. Recovery after a failed call: a script that passes a name in the hidden
  \<open>image\<close> property gets TypeError at line 110, after the temporary scene was made,
  and the scene stays in the file. If the user then denoises from the menu, the
  run reuses that scene (line 68 finds it), removes it, and leaves the file exactly
  as the menu run alone would have left it.\<close>

theorem failed_script_then_menu:
  assumes op: "IMAGE_OT_denoise_bl_idname \<in> set (ops (reg s))" and shown: "menu_entry_shown (reg s) ctx"
    and ctx: "edit_image ctx = Some i" and i: "i < length (images (data s))"
    and nm: "op_image self \<noteq> ''''"
    and len: "length (oidn pf hdr (pixels (images (data s) ! i))) = length (pixels (images (data s) ! i))"
    and other: "list_ex (\<lambda>sc. sc_name sc \<noteq> SCENE_NAME) (scenes (data s))"
  shows "scene_in SCENE_NAME (data (session_run oidn [Script_denoise self ctx] s)) \<and>
         session_run oidn [Script_denoise self ctx, Menu_denoise ctx (Dialog_OK pf hdr)] s =
         session_run oidn [Menu_denoise ctx (Dialog_OK pf hdr)] s"
proof -
  let ?self = "op_defaults\<lparr>op_prefilter := pf, op_use_hdr := hdr\<rparr>"
  let ?st1 = "setup_state SCENE_NAME (denoise_graph None ACCURATE True)
      (if scene_in SCENE_NAME (data s) then data s
       else (data s)\<lparr>scenes := scenes (data s) @ [new_scene SCENE_NAME]\<rparr>)"
  let ?fin = "\<lparr>scenes = filter (\<lambda>sc. sc_name sc \<noteq> SCENE_NAME) (scenes (data s)),
               images = denoised_images oidn pf hdr i (images (data s))\<rparr>"
  have ne: "edit_image ctx \<noteq> None"
    using ctx by simp
  have script: "session_step oidn (Script_denoise self ctx) s = s\<lparr>data := ?st1\<rparr>"
    using op ctx execute_string_source [OF nm, of oidn ctx "data s"]
    by (simp add: ops_call_result poll_def BL_IDNAME_def IMAGE_OT_denoise_bl_idname_def)
  have in1: "scene_in SCENE_NAME ?st1"
    using scene_in_created [of "data s"] by (simp add: setup_state_def)
  have e0: "execute oidn ?self ctx (data s) = Ok FINISHED ?fin"
    using execute_success [of ctx i ?self "data s" oidn] ctx i len other by (simp add: op_defaults_def)
  have f: "filter (\<lambda>sc. sc_name sc \<noteq> SCENE_NAME) (scenes ?st1) =
           filter (\<lambda>sc. sc_name sc \<noteq> SCENE_NAME) (scenes (data s))"
    by simp
  have other1: "list_ex (\<lambda>sc. sc_name sc \<noteq> SCENE_NAME) (scenes ?st1)"
    using other by (simp add: list_ex_filter f del: filter_empty_conv)
  have e1: "execute oidn ?self ctx ?st1 = Ok FINISHED ?fin"
    using execute_success [of ctx i ?self ?st1 oidn] ctx i len other1 by (simp add: op_defaults_def)
  show ?thesis
    using script in1 e0 e1 menu_denoise_step [of "s\<lparr>data := ?st1\<rparr>" ctx oidn pf hdr]
          menu_denoise_step [of s ctx oidn pf hdr] op shown ne
    by simp
qed

section \<open>Witnesses\<close>


theorem session_reenable_denoise_witness:
  "fresh_registry empty_registry \<and> appends (empty_registry :: draw_fn registry) ''IMAGE_MT_filters'' = [] \<and>
   edit_image example_ctx = Some 0 \<and> 0 < length (images example_data) \<and>
   (\<forall>p. length (halve FAST False p) = length p) \<and>
   list_ex (\<lambda>s. sc_name s \<noteq> SCENE_NAME) (scenes example_data) \<and>
   pixels (images (data (session_run halve
      [Enable_addon, Menu_denoise example_ctx (Dialog_OK FAST False), Disable_addon,
       Enable_addon, Menu_denoise example_ctx (Dialog_OK FAST False)]
      \<lparr>reg = empty_registry, data = example_data\<rparr>)) ! 0) = [1 / 4, 1 / 8] \<and>
   op_entries (filters_layout (reg (session_run halve
      [Enable_addon, Menu_denoise example_ctx (Dialog_OK FAST False), Disable_addon,
       Enable_addon, Menu_denoise example_ctx (Dialog_OK FAST False)]
      \<lparr>reg = empty_registry, data = example_data\<rparr>)) example_ctx) = 2"
proof -
  have h: "fresh_registry empty_registry" "appends (empty_registry :: draw_fn registry) ''IMAGE_MT_filters'' = []"
    "edit_image example_ctx = Some 0" "0 < length (images example_data)"
    "\<forall>p. length (halve FAST False p) = length p"
    "list_ex (\<lambda>s. sc_name s \<noteq> SCENE_NAME) (scenes example_data)"
    by (simp_all add: fresh_registry_def empty_registry_def example_ctx_def example_data_def halve_def
                      SCENE_NAME_def new_scene_def)
  have "pixels (images example_data ! 0) = [1, 1 / 2]"
    by (simp add: example_data_def)
  with session_reenable_denoise [of empty_registry example_ctx 0 example_data halve FAST False, OF h] h show ?thesis
    by (simp add: halve_def)
qed


theorem failed_script_then_menu_witness:
  "IMAGE_OT_denoise_bl_idname \<in> set (ops ((installed empty_registry 0)\<lparr>ops := [IMAGE_OT_denoise_bl_idname]\<rparr>)) \<and>
   menu_entry_shown ((installed empty_registry 0)\<lparr>ops := [IMAGE_OT_denoise_bl_idname]\<rparr>) example_ctx \<and>
   edit_image example_ctx = Some 0 \<and> 0 < length (images example_data) \<and>
   op_image (op_defaults\<lparr>op_image := ''noise.png''\<rparr>) \<noteq> '''' \<and>
   length (halve FAST False (pixels (images example_data ! 0))) = length (pixels (images example_data ! 0)) \<and>
   list_ex (\<lambda>sc. sc_name sc \<noteq> SCENE_NAME) (scenes example_data) \<and>
   scene_in SCENE_NAME (data (session_run halve [Script_denoise (op_defaults\<lparr>op_image := ''noise.png''\<rparr>) example_ctx]
      \<lparr>reg = (installed empty_registry 0)\<lparr>ops := [IMAGE_OT_denoise_bl_idname]\<rparr>, data = example_data\<rparr>)) \<and>
   session_run halve [Script_denoise (op_defaults\<lparr>op_image := ''noise.png''\<rparr>) example_ctx,
                      Menu_denoise example_ctx (Dialog_OK FAST False)]
      \<lparr>reg = (installed empty_registry 0)\<lparr>ops := [IMAGE_OT_denoise_bl_idname]\<rparr>, data = example_data\<rparr> =
   session_run halve [Menu_denoise example_ctx (Dialog_OK FAST False)]
      \<lparr>reg = (installed empty_registry 0)\<lparr>ops := [IMAGE_OT_denoise_bl_idname]\<rparr>, data = example_data\<rparr>"
proof -
  have m: "menu_entry_shown ((installed empty_registry 0)\<lparr>ops := [IMAGE_OT_denoise_bl_idname]\<rparr>) example_ctx"
    using menu_entry_shown_installed [of example_ctx "[IMAGE_OT_denoise_bl_idname]" empty_registry 0] by (simp add: example_ctx_def)
  have h: "edit_image example_ctx = Some 0" "0 < length (images example_data)"
    "op_image (op_defaults\<lparr>op_image := ''noise.png''\<rparr>) \<noteq> ''''"
    "length (halve FAST False (pixels (images example_data ! 0))) = length (pixels (images example_data ! 0))"
    "list_ex (\<lambda>sc. sc_name sc \<noteq> SCENE_NAME) (scenes example_data)"
    by (simp_all add: example_ctx_def example_data_def halve_def SCENE_NAME_def new_scene_def)
  from failed_script_then_menu [of "\<lparr>reg = (installed empty_registry 0)\<lparr>ops := [IMAGE_OT_denoise_bl_idname]\<rparr>, data = example_data\<rparr>"
      example_ctx 0 "op_defaults\<lparr>op_image := ''noise.png''\<rparr>" halve FAST False] m h
  show ?thesis by simp
qed

end
