(* ===== verification/Addon_Info.thy ===== *)
theory Addon_Info
  imports Prelude
begin

text \<open>
  The add-on's metadata, the \<open>bl_info\<close> dictionary of lines 1-12, as a record.
  Blender reads it to list the add-on (name, version, description, category) and
  shows \<open>location\<close> as the menu path of its entry: the Image menu of the Image
  Editor, then the Filters submenu that \<open>register\<close> installs (\<open>Register\<close>,
  \<open>IMAGE_MT_filters_bl_label\<close>). No code of the add-on reads it.
\<close>

record addon_info =
  bl_name :: string
  bl_author :: string
  bl_version :: "nat \<times> nat"
  bl_blender :: "nat \<times> nat \<times> nat"
  bl_location :: string
  bl_description :: string
  bl_warning :: string
  bl_doc_url :: string
  bl_support :: string
  bl_category :: string

definition bl_info :: addon_info where
  "bl_info =
     \<lparr>bl_name = ''Image Denoise Operator'',
      bl_author = ''Martin Lorentzon'',
      bl_version = (1, 0),
      bl_blender = (4, 1, 0),
      bl_location = ''Image Editor > Image > Filters'',
      bl_description = ''Denoise image with Open Image Denoise'',
      bl_warning = '''',
      bl_doc_url = '''',
      bl_support = ''COMMUNITY'',
      bl_category = ''Image''\<rparr>"

end
