(* ===== verification/Spec2Isabelle.thy ===== *)
theory Spec2Isabelle
  imports Refinement Session Addon_Info
begin

text \<open>
  \<^bold>\<open>Verification development of the Blender add-on "Image Denoise Operator"\<close>
  (src/Curated Addons/image_denoise_operator.py).

  \<^bold>\<open>The program.\<close> The add-on has three parts. The operator \<open>IMAGE_OT_denoise\<close>
  (lines 52-132) builds a temporary compositing scene whose node tree is
  Image \<open>\<rightarrow>\<close> Denoise \<open>\<rightarrow>\<close> Viewer, renders it, copies the Viewer image's pixels
  onto the source image and removes the scene. The menu part (lines 30-47) is the
  Filters menu \<open>IMAGE_MT_filters\<close> and \<open>menu_func\<close>, which adds that menu to the Image
  menu. \<open>register\<close> and \<open>unregister\<close> (lines 136-163) install both, and the main
  block (166-167) calls \<open>register\<close>. They interact through Blender: registration
  makes \<open>bpy.ops.image.denoise\<close> callable and puts entries naming it into the menus,
  and a call runs \<open>poll\<close> and then \<open>execute\<close> (directly, or through \<open>invoke\<close>'s
  dialog) on Blender's data. \<open>bl_info\<close> (1-12) is the add-on's metadata.

  \<^bold>\<open>Theories.\<close>
  \<^item> \<open>Prelude\<close>: Python statements as state transformers \<open>('a, 's) pyfun\<close> that end in
    \<open>Ok value state\<close> or \<open>Exc error state\<close>. The state of an exception is the state
    at the raise, since Python does not roll back. Also the monad laws,
    \<open>preserves\<close> (an invariant kept by every outcome), \<open>exc_keeps\<close> (a property
    kept by every exception), \<open>map_res\<close> (an outcome seen through an abstraction),
    \<open>reraise_as\<close> (an exception surfacing as another), \<open>first_index\<close> (the
    \<open>next(..., None)\<close> of line 121) and shared list lemmas.
  \<^item> \<open>Compositor\<close> (host): node trees as lists of nodes and links. It has
    \<open>nodes.clear\<close>, \<open>nodes.new\<close>, \<open>links.new\<close> (which orders the two sockets), the node
    property setters, and an evaluator \<open>eval_output\<close> in which the denoiser is a
    parameter \<open>oidn\<close>: the OIDN library is not modelled, only passed settings and
    pixels. \<open>tree_wf\<close> is the well-formedness of a tree, and \<open>ranked\<close> its
    acyclicity (a topological rank).
  \<^item> \<open>Host_Data\<close> (host): \<open>bpy.data\<close> as a record \<open>bdata\<close> of scenes (by name) and
    images (by index), with the calls the operator makes: \<open>scenes.new\<close>,
    \<open>scenes[...]\<close> (KeyError), \<open>scenes.remove\<close> (RuntimeError on the last scene),
    \<open>render.render\<close> (evaluates the scene's tree into the COMPOSITING image, creating
    "Viewer Node" when none exists), and the \<open>pixels\<close> assignment (ValueError on a
    length mismatch). \<open>bdata_wf\<close> (at least one scene, distinct scene names) and
    \<open>trees_wf\<close> (every node tree well formed) are Blender's invariants.
  \<^item> \<open>Operator\<close>: the operator's properties and labels, \<open>poll\<close>, \<open>invoke\<close> with its
    properties dialog (\<open>invoke_run\<close>), and \<open>execute\<close> split into its blocks as in
    the source: \<open>source_of\<close> (79-82), \<open>create_scene\<close> (84-88), \<open>setup_compositor\<close>
    (90-112, one step per statement), \<open>render_render\<close> (115-119),
    \<open>find_viewer_image\<close> (121), \<open>copy_pixels\<close> (123) and \<open>scenes_remove\<close> (126),
    chained by \<open>bindP\<close>.
  \<^item> \<open>Refinement\<close>: the abstract specification \<open>denoise_spec\<close> of a call, on the
    user's view of the file (\<open>user_view\<close>: the scenes of other names than the
    temporary one, and the non-COMPOSITING images with their positions).
  \<^item> \<open>Host_UI\<close> (host): the class registry and menus. It is generic in the type of
    draw functions. \<open>ops_call\<close> is \<open>bpy.ops.<idname>(...)\<close>: AttributeError for an
    unregistered operator, RuntimeError when poll fails or execute raises.
  \<^item> \<open>Menu\<close>: the draw functions as a datatype, with \<open>new_draw_method\<close>'s captured
    \<open>original_draw_method\<close> as an argument, and \<open>run_draw\<close>, which runs one.
  \<^item> \<open>Register\<close>: \<open>register\<close>, \<open>unregister\<close>, \<open>main_block\<close>, and \<open>lifecycle\<close>,
    which runs a sequence of enable/disable events of the add-on manager.
  \<^item> \<open>Lifecycle\<close>: the same events as an inductive reachability relation
    \<open>addon_reach\<close> (with \<open>code_pred\<close>), the shapes of the reachable registries, and
    properties of all reachable registries.
  \<^item> \<open>Session\<close>: the registry and the file's data together, changed by a list of
    user actions in any order (enable, disable, the menu entry with its dialog, a
    script call), each on the state the previous action left.
  \<^item> \<open>Addon_Info\<close>: \<open>bl_info\<close> as a record.
  \<^item> This theory: properties that span registration, menus and the operator.

  \<^bold>\<open>What is proved.\<close>
  \<^item> Operator: the success path is computed exactly (\<open>execute_success\<close>).
    It gives denoising of the edited image (C1), the removal of every scene named
    like the temporary scene (C2), the frame of a run (C5) and the equivalence of
    a leftover scene with a fresh one (C4). The setup block builds a graph that
    evaluates to the denoised pixels (C6). The dialog denoises with the settings
    chosen in it, and cancelling changes nothing (C20).
  \<^item> Operator error paths: the hidden \<open>image\<close> property always raises TypeError
    and leaks the scene (C3). A file whose only scene has the temporary name
    raises RuntimeError after the image was overwritten (C16). Every exception
    leaves the temporary scene in the file, since there is no \<open>finally\<close> (C21).
    Line 123 raises ValueError exactly when the denoiser changes the number of
    values, and the source then keeps its pixels (C23). When the context's image
    exists, the only exceptions are TypeError, AttributeError, ValueError and
    RuntimeError: \<open>scenes[SCENE_NAME]\<close> never raises KeyError (C26).
  \<^item> Ordering: two runs in a row apply the denoiser twice and reuse the viewer
    image of the first (C24).
  \<^item> Refinement (C17): on a well-formed file, every outcome of \<open>execute\<close>, seen
    through \<open>user_view\<close>, is the one \<open>denoise_spec\<close> prescribes. This covers
    TypeError, AttributeError, RuntimeError after denoising, and FINISHED.
    Through \<open>bpy.ops\<close> on the registered operator, the same holds with every
    exception surfacing as RuntimeError, and \<open>poll\<close> refuses a context without an
    edited image before \<open>execute\<close> touches the file (C22).
  \<^item> Registration: C7-C12 cover a fresh and an extending register, a double
    register, and unregister. Disabling leaves the menu entries. Each re-enable
    adds one more entry, proved for every number of cycles by induction over the
    cycles.
  \<^item> Life cycle (C18, C19), by rule induction over \<open>addon_reach\<close>: from every
    reachable registry an enable makes the operator callable with a menu entry
    (liveness), and \<open>menu_func\<close> is appended at most once.
  \<^item> Sessions (C25, C27): enable, denoise, disable, enable, denoise applies the
    denoiser twice and leaves two Denoise entries in the Filters menu. A script
    call that fails with TypeError leaves the temporary scene; a following menu
    run reuses and removes it, and the session ends exactly as the menu run alone
    would leave it.
  \<^item> Across components (C13-C15): enable-then-denoise end to end, the submenu
    shown exactly when poll holds, and the commented call of line 168 after the
    main block always failing.
  \<^item> Host model lemmas (not properties of the add-on): the node-tree operations
    keep trees well formed (\<open>preserves_tree_ops\<close>), every host call keeps
    \<open>bdata_wf\<close> and \<open>trees_wf\<close>, and so does \<open>execute\<close>
    (\<open>preserves_execute_bdata_wf\<close>, \<open>preserves_execute_trees_wf\<close>).

  \<^bold>\<open>Bounds and fuel.\<close> The evaluator runs on fuel, one unit per node along a link
  chain. \<open>render_render\<close> gives it \<open>length (nodes t) + 1\<close>. This is enough for
  every acyclic tree: with a rank function that grows along links,
  \<open>eval_output_fuel\<close> shows the value at a node does not change once the fuel
  exceeds the node's rank, and ranks are below the number of nodes. The tree the
  operator builds is ranked by node index, and the properties above compute its
  render exactly. On a tree with a cycle, Blender flags the links invalid; the
  model's evaluator then returns None when the fuel runs out.

  \<^bold>\<open>Not modelled.\<close>
  \<^item> The notice comment and the imports (lines 13-24).
  \<^item> The OIDN algorithm (a parameter of the model).
  \<^item> The drawing of menus beyond the items they list; menu labels are kept as
    constants.
  \<^item> The undo system.
  \<^item> Blender's ".001" suffixes for clashing names (scene names are kept distinct by
    \<open>bdata_wf\<close>).
  \<^item> Render settings other than the compositor (resolution, colour management).
  \<^item> Blender's memory of an operator's last-used properties: the menu's dialog
    is modelled as starting from the default values.
  \<^item> Other add-ons derived from this template (as its notice invites) are not in
    the repository. Another add-on's Filters menu is modelled only as a foreign
    draw function registered before this one (C8).
  \<^item> Blender's check of enum keyword arguments (a prefilter identifier outside
    lines 62-64 is refused before the operator runs): the items are kept as data
    (\<open>prefilter_items\<close>), and the operator's prefilter is a value of the datatype
    \<open>prefilter\<close>, so the model's calls pass only valid items.
  \<^item> Whether Blender renders a scene whose compositor tree has a Viewer but no
    Composite output: \<open>render_render\<close> assumes it does (the add-on depends on it).
\<close>

section \<open>Properties across components\<close>

text \<open>C13. From enabling to denoising: on a Blender without the operator and
  without a Filters menu, \<open>register\<close> makes the Filters menu show an entry whose
  idname is that of a registered operator, and calling that operator
  (\<open>bpy.ops.image.denoise()\<close> with the default properties) on the image being
  edited finishes and leaves the denoised pixels in that image.\<close>

theorem enable_then_denoise:
  assumes "IMAGE_OT_denoise_bl_idname \<notin> set (ops r)" and "menus r ''IMAGE_MT_filters'' = None"
    and "edit_image ctx = Some i" and "i < length (images st)"
    and "length (oidn ACCURATE True (pixels (images st ! i))) = length (pixels (images st ! i))"
    and "list_ex (\<lambda>s. sc_name s \<noteq> SCENE_NAME) (scenes st)"
  shows "\<exists>r'. register r = Ok () r' \<and> Operator_item BL_IDNAME \<in> set (filters_layout r' ctx) \<and>
           (\<exists>st'. ops_call r' BL_IDNAME poll (execute oidn op_defaults) ctx st = Ok FINISHED st' \<and>
              pixels (images st' ! i) = oidn ACCURATE True (pixels (images st ! i)))"
proof -
  have ex: "execute oidn op_defaults ctx st =
      Ok FINISHED \<lparr>scenes = filter (\<lambda>s. sc_name s \<noteq> SCENE_NAME) (scenes st),
                   images = denoised_images oidn ACCURATE True i (images st)\<rparr>"
    using execute_success [of ctx i op_defaults st oidn] assms(3-6) by (simp add: op_defaults_def)
  show ?thesis
    using assms(1,2,3,4) ex denoised_images_source [OF assms(4), of oidn ACCURATE True]
    by (simp add: register_fresh_result ops_call_result menu_layout_def filters_draw_def poll_def
                  BL_IDNAME_def IMAGE_OT_denoise_bl_idname_def)
qed

text \<open>C14. The Image menu lists the Filters submenu exactly when the operator's
  \<open>poll\<close> allows it to run: after enabling on a Blender whose Image menu has no
  appended items, the submenu appears in the Image menu if and only if an image is
  being edited.\<close>

theorem filters_submenu_iff_poll:
  assumes "IMAGE_OT_denoise_bl_idname \<notin> set (ops r)" and "menus r ''IMAGE_MT_filters'' = None"
    and "menus r ''IMAGE_MT_image'' = None" and "appends r ''IMAGE_MT_image'' = []"
  shows "\<exists>r'. register r = Ok () r' \<and>
           (Menu_item ''IMAGE_MT_filters'' \<in> set (image_menu_layout r' ctx) \<longleftrightarrow> poll ctx)"
  using assms by (simp add: register_fresh_result menu_layout_def menu_func_def poll_def)

text \<open>C15. The call of line 168, \<open>bpy.ops.image.denoise(image='noise.png')\<close> after
  the main block's \<open>register()\<close>, never succeeds: it raises RuntimeError. Without an image being
  edited, \<open>poll\<close> refuses and nothing changes; otherwise \<open>execute\<close> fails on the
  string and leaves the temporary scene in the file; no image is changed.\<close>

theorem main_denoise_call_fails:
  assumes "IMAGE_OT_denoise_bl_idname \<notin> set (ops r)"
  shows "\<exists>r'. main_block r = Ok () r' \<and>
           (\<exists>st'. ops_call r' BL_IDNAME poll (execute oidn (op_defaults\<lparr>op_image := ''noise.png''\<rparr>)) ctx st =
                  Exc RuntimeError st' \<and> images st' = images st \<and>
                  (if poll ctx then scene_in SCENE_NAME st' else st' = st))"
proof -
  obtain r' where r': "main_block r = Ok () r'" and reg: "BL_IDNAME \<in> set (ops r')"
    using assms
    by (cases "menus r ''IMAGE_MT_filters''")
       (simp_all add: main_block_def register_fresh_result register_wrap_result BL_IDNAME_def IMAGE_OT_denoise_bl_idname_def)
  have ex: "execute oidn (op_defaults\<lparr>op_image := ''noise.png''\<rparr>) ctx st =
     Exc TypeError (setup_state SCENE_NAME (denoise_graph None ACCURATE True)
      (if scene_in SCENE_NAME st then st else st\<lparr>scenes := scenes st @ [new_scene SCENE_NAME]\<rparr>))"
    by (rule execute_string_source) simp
  show ?thesis
    using r' reg ex scene_in_created [of st]
    by (simp add: ops_call_result setup_state_def)
qed


text \<open>C22. The operator called through \<open>bpy.ops.image.denoise\<close> implements the
  abstract operation, with poll (lines 72-74) checked first: once the operator is
  registered, on a well-formed file with the edited image present and a
  size-preserving denoiser, the call, seen through the user's view, refuses with
  RuntimeError when no image is edited and otherwise does what \<open>denoise_spec\<close>
  prescribes, every exception surfacing as RuntimeError. When no image is edited
  the refusal leaves the whole file unchanged, the temporary scene included:
  execute never starts.\<close>

theorem ops_call_refines_spec:
  assumes "IMAGE_OT_denoise_bl_idname \<in> set (ops r)" and "bdata_wf st"
    and "pred_option (\<lambda>i. i < length (images st)) (edit_image ctx)" and "denoiser_ok oidn"
  shows "map_res user_view (ops_call r BL_IDNAME poll (execute oidn self) ctx st) =
         (case edit_image ctx of
            None \<Rightarrow> Exc RuntimeError (user_view st)
          | Some i \<Rightarrow> reraise_as RuntimeError (denoise_spec oidn self ctx (user_view st))) \<and>
         ops_call r BL_IDNAME poll (execute oidn self) (ctx\<lparr>edit_image := None\<rparr>) st = Exc RuntimeError st"
proof
  show "map_res user_view (ops_call r BL_IDNAME poll (execute oidn self) ctx st) =
        (case edit_image ctx of
           None \<Rightarrow> Exc RuntimeError (user_view st)
         | Some i \<Rightarrow> reraise_as RuntimeError (denoise_spec oidn self ctx (user_view st)))"
    using assms(1) execute_implements_spec [OF assms(2-4), of self]
    by (simp add: ops_call_result map_res_reraise_as poll_def BL_IDNAME_def IMAGE_OT_denoise_bl_idname_def
             split: option.split)
  show "ops_call r BL_IDNAME poll (execute oidn self) (ctx\<lparr>edit_image := None\<rparr>) st = Exc RuntimeError st"
    using assms(1) by (simp add: ops_call_result poll_def BL_IDNAME_def IMAGE_OT_denoise_bl_idname_def)
qed

section \<open>Witnesses\<close>

theorem enable_then_denoise_witness:
  "IMAGE_OT_denoise_bl_idname \<notin> set (ops empty_registry) \<and>
   menus (empty_registry :: draw_fn registry) ''IMAGE_MT_filters'' = None \<and>
   edit_image example_ctx = Some 0 \<and> 0 < length (images example_data) \<and>
   length (halve ACCURATE True (pixels (images example_data ! 0))) = length (pixels (images example_data ! 0)) \<and>
   list_ex (\<lambda>s. sc_name s \<noteq> SCENE_NAME) (scenes example_data) \<and>
   (\<exists>r'. register empty_registry = Ok () r' \<and>
      (\<exists>st'. ops_call r' BL_IDNAME poll (execute halve op_defaults) example_ctx example_data = Ok FINISHED st' \<and>
         pixels (images st' ! 0) = [1 / 2, 1 / 4]))"
  using enable_then_denoise [of empty_registry example_ctx 0 example_data halve]
  by (simp add: empty_registry_def example_ctx_def example_data_def halve_def SCENE_NAME_def new_scene_def) blast

theorem filters_submenu_iff_poll_witness:
  "IMAGE_OT_denoise_bl_idname \<notin> set (ops empty_registry) \<and>
   menus (empty_registry :: draw_fn registry) ''IMAGE_MT_filters'' = None \<and>
   menus (empty_registry :: draw_fn registry) ''IMAGE_MT_image'' = None \<and>
   appends (empty_registry :: draw_fn registry) ''IMAGE_MT_image'' = [] \<and>
   (\<exists>r'. register empty_registry = Ok () r' \<and>
      Menu_item ''IMAGE_MT_filters'' \<in> set (image_menu_layout r' example_ctx) \<and>
      Menu_item ''IMAGE_MT_filters'' \<notin> set (image_menu_layout r' \<lparr>edit_image = None\<rparr>))"
  using filters_submenu_iff_poll [of empty_registry example_ctx]
    filters_submenu_iff_poll [of empty_registry "\<lparr>edit_image = None\<rparr>"]
  by (simp add: empty_registry_def example_ctx_def poll_def register_fresh_result)

theorem main_denoise_call_fails_witness:
  "IMAGE_OT_denoise_bl_idname \<notin> set (ops (empty_registry :: draw_fn registry)) \<and>
   (\<exists>r'. main_block empty_registry = Ok () r' \<and>
      (\<exists>st'. ops_call r' BL_IDNAME poll (execute halve (op_defaults\<lparr>op_image := ''noise.png''\<rparr>)) example_ctx
               example_data = Exc RuntimeError st' \<and>
             images st' = images example_data \<and> scene_in SCENE_NAME st'))"
  using main_denoise_call_fails [of empty_registry halve example_ctx example_data]
  by (simp add: empty_registry_def example_ctx_def poll_def)


theorem ops_call_refines_spec_witness:
  "IMAGE_OT_denoise_bl_idname \<in> set (ops ((empty_registry :: draw_fn registry)\<lparr>ops := [IMAGE_OT_denoise_bl_idname]\<rparr>)) \<and>
   bdata_wf example_data \<and> pred_option (\<lambda>i. i < length (images example_data)) (edit_image example_ctx) \<and>
   denoiser_ok halve \<and>
   map_res user_view (ops_call ((empty_registry :: draw_fn registry)\<lparr>ops := [IMAGE_OT_denoise_bl_idname]\<rparr>)
       BL_IDNAME poll (execute halve op_defaults) example_ctx example_data) =
     Ok FINISHED ([new_scene ''Scene''],
                  [(0, \<lparr>img_name = ''noise.png'', img_type = IMAGE, pixels = [1 / 2, 1 / 4]\<rparr>)]) \<and>
   ops_call ((empty_registry :: draw_fn registry)\<lparr>ops := [IMAGE_OT_denoise_bl_idname]\<rparr>)
       BL_IDNAME poll (execute halve op_defaults) (example_ctx\<lparr>edit_image := None\<rparr>) example_data =
     Exc RuntimeError example_data"
proof -
  have h: "IMAGE_OT_denoise_bl_idname \<in> set (ops ((empty_registry :: draw_fn registry)\<lparr>ops := [IMAGE_OT_denoise_bl_idname]\<rparr>))"
    "bdata_wf example_data" "pred_option (\<lambda>i. i < length (images example_data)) (edit_image example_ctx)"
    "denoiser_ok halve"
    by (simp_all add: bdata_wf_def example_data_def new_scene_def example_ctx_def denoiser_ok_def halve_def)
  have "denoise_spec halve op_defaults example_ctx (user_view example_data) =
     Ok FINISHED ([new_scene ''Scene''],
                  [(0, \<lparr>img_name = ''noise.png'', img_type = IMAGE, pixels = [1 / 2, 1 / 4]\<rparr>)])"
    by (simp add: denoise_spec_def op_defaults_def example_ctx_def user_view_def user_images_def
                  example_data_def new_scene_def SCENE_NAME_def is_compositing_def denoise_in_place_def
                  halve_def)
  moreover have "edit_image example_ctx = Some 0"
    by (simp add: example_ctx_def)
  ultimately show ?thesis
    using ops_call_refines_spec [OF h, of op_defaults] h by simp
qed

end
